theory Spec2Isabelle
  imports Complex_Main
begin

section \<open>Numbers and arrays\<close>

text \<open>
  The solvers of \<^verbatim>\<open>sunode/solver.py\<close> move C doubles between numpy arrays and the
  SUNDIALS engine. A double is either a number or not-a-number; rounding is not
  modelled, and nothing below depends on the value of a difference. Comparisons follow
  IEEE 754: not-a-number is neither equal to nor smaller than anything.
\<close>

datatype double = Num real | NaN

fun feq :: "double \<Rightarrow> double \<Rightarrow> bool" where
  "feq (Num a) (Num b) = (a = b)"
| "feq _ _ = False"

fun flt :: "double \<Rightarrow> double \<Rightarrow> bool" where
  "flt (Num a) (Num b) = (a < b)"
| "flt _ _ = False"

fun fsub :: "double \<Rightarrow> double \<Rightarrow> double" where
  "fsub (Num a) (Num b) = Num (a - b)"
| "fsub _ _ = NaN"

fun fneg :: "double \<Rightarrow> double" where
  "fneg (Num a) = Num (- a)"
| "fneg NaN = NaN"

type_synonym vec = "double list"
type_synonym matrix = "vec list"
type_synonym tensor = "matrix list"

text \<open>What \<^verbatim>\<open>np.array(x)\<close> can be for a tolerance: \<^verbatim>\<open>ndim\<close> 0, 1 or more.\<close>

datatype ndarray = Scalar double | Vector vec | Matrix matrix

fun ndim :: "ndarray \<Rightarrow> nat" where
  "ndim (Scalar _) = 0"
| "ndim (Vector _) = 1"
| "ndim (Matrix _) = 2"

section \<open>Exceptions\<close>

text \<open>
  The three messages of \<^verbatim>\<open>SolverError\<close> are kept as their format arguments:
  \<^verbatim>\<open>"Bad sundials return code while solving ode: %s (%s)"\<close>,
  \<^verbatim>\<open>"Solving ode failed between time {t_upper} and {t_lower}: {error} ({retval})"\<close> and
  \<^verbatim>\<open>"Too many solver retries between time {t_upper} and {t_lower}."\<close>.
\<close>

datatype solver_msg =
    BadReturnCode string int
  | FailedBetween double double string int
  | TooManyRetries double double

datatype error =
    SolverError solver_msg
  | ValueError string
  | IndexError
  | KeyError int
  | TypeError
  | AssertionError double double
  | CheckError int

text \<open>
  A statement either completes or raises; what it mutated stays mutated either way, so
  every operation returns the exception (if any) together with the state it leaves.
\<close>

type_synonym 's outcome = "error option \<times> 's"

subsection \<open>numpy assignments\<close>

text \<open>\<^verbatim>\<open>dst[:] = c\<close> for a scalar \<^verbatim>\<open>c\<close>.\<close>

definition fill :: "vec \<Rightarrow> double \<Rightarrow> vec" where
  "fill dst c = map (\<lambda>_. c) dst"

text \<open>
  \<^verbatim>\<open>dst[:] = src\<close> for one-dimensional arrays: the shapes agree, or \<^verbatim>\<open>src\<close> has one
  entry and is broadcast; otherwise numpy raises \<^verbatim>\<open>ValueError\<close> (here \<open>None\<close>).
\<close>

definition broadcast_to :: "vec \<Rightarrow> vec \<Rightarrow> vec option" where
  "broadcast_to dst src =
     (if length src = length dst then Some src
      else if length src = 1 then Some (fill dst (hd src))
      else None)"

definition assign :: "vec \<Rightarrow> vec \<Rightarrow> vec outcome" where
  "assign dst src =
     (case broadcast_to dst src of
        None \<Rightarrow> (Some (ValueError ''could not broadcast input array''), dst)
      | Some v \<Rightarrow> (None, v))"

text \<open>\<^verbatim>\<open>dst[:] -= g\<close>.\<close>

definition isub :: "vec \<Rightarrow> vec \<Rightarrow> vec outcome" where
  "isub dst g =
     (case broadcast_to dst g of
        None \<Rightarrow> (Some (ValueError ''operands could not be broadcast together''), dst)
      | Some v \<Rightarrow> (None, map2 fsub dst v))"

text \<open>\<^verbatim>\<open>m[i, :] = src\<close> for an index \<^verbatim>\<open>i >= 0\<close>.\<close>

definition set_row :: "matrix \<Rightarrow> nat \<Rightarrow> vec \<Rightarrow> matrix outcome" where
  "set_row m i src =
     (if length m \<le> i then (Some IndexError, m)
      else case assign (m ! i) src of
             (Some e, _) \<Rightarrow> (Some e, m)
           | (None, r) \<Rightarrow> (None, m[i := r]))"

text \<open>
  \<^verbatim>\<open>m[-i, :] = src\<close> for \<^verbatim>\<open>i >= 0\<close>: \<^verbatim>\<open>-0\<close> is row 0, and \<^verbatim>\<open>-i\<close> counts from the end
  otherwise.
\<close>

definition set_row_neg :: "matrix \<Rightarrow> nat \<Rightarrow> vec \<Rightarrow> matrix outcome" where
  "set_row_neg m i src =
     (if i = 0 then set_row m 0 src
      else if length m < i then (Some IndexError, m)
      else set_row m (length m - i) src)"

text \<open>
  \<^verbatim>\<open>t[0, :, :] = src\<close> for a two-dimensional \<^verbatim>\<open>src\<close>: row by row, a single row of
  \<^verbatim>\<open>src\<close> being broadcast over all rows.
\<close>

fun assign_rows :: "matrix \<Rightarrow> matrix \<Rightarrow> matrix option" where
  "assign_rows [] [] = Some []"
| "assign_rows (d # ds) (s # ss) =
     (case broadcast_to d s of
        None \<Rightarrow> None
      | Some r \<Rightarrow> (case assign_rows ds ss of None \<Rightarrow> None | Some rs \<Rightarrow> Some (r # rs)))"
| "assign_rows _ _ = None"

definition assign_matrix :: "matrix \<Rightarrow> matrix \<Rightarrow> matrix outcome" where
  "assign_matrix dst src =
     (case (if length src = 1 \<and> length dst \<noteq> 1
            then assign_rows dst (map (\<lambda>_. hd src) dst)
            else assign_rows dst src) of
        None \<Rightarrow> (Some (ValueError ''could not broadcast input array''), dst)
      | Some m \<Rightarrow> (None, m))"

definition set_slab :: "tensor \<Rightarrow> nat \<Rightarrow> matrix \<Rightarrow> tensor outcome" where
  "set_slab t i src =
     (if length t \<le> i then (Some IndexError, t)
      else case assign_matrix (t ! i) src of
             (Some e, _) \<Rightarrow> (Some e, t)
           | (None, m) \<Rightarrow> (None, t[i := m]))"

text \<open>\<^verbatim>\<open>t[i, j, :] = src\<close>.\<close>

definition set_cell_row :: "tensor \<Rightarrow> nat \<Rightarrow> nat \<Rightarrow> vec \<Rightarrow> tensor outcome" where
  "set_cell_row t i j src =
     (if length t \<le> i then (Some IndexError, t)
      else case set_row (t ! i) j src of
             (Some e, _) \<Rightarrow> (Some e, t)
           | (None, m) \<Rightarrow> (None, t[i := m]))"

section \<open>The interface of \<^verbatim>\<open>sunode.basic\<close>\<close>

text \<open>
  \<^verbatim>\<open>solver.py\<close> imports \<^verbatim>\<open>lib\<close> (the SUNDIALS functions and constants), \<^verbatim>\<open>check\<close>
  and \<^verbatim>\<open>ERRORS\<close> from \<^verbatim>\<open>sunode.basic\<close>, and reaches the parameter buffer through its
  problem object; none of them is part of the sources at hand, so they are parameters
  of the model. The type \<open>'e\<close> is everything behind the \<^verbatim>\<open>self._ode\<close> handle,
  including the backward problem and the user-data buffer registered with the engine.
  An engine function takes the handle and what the C function reads, and returns its
  return value, the handle, and what the C function writes through its pointer
  arguments.
\<close>

record 'e basic =
  check :: "int \<Rightarrow> error option"
  ERRORS :: "int \<Rightarrow> string option"
  CV_TOO_MUCH_WORK :: int
  CV_NORMAL :: int
  CVodeSStolerances :: "'e \<Rightarrow> double \<Rightarrow> double \<Rightarrow> int \<times> 'e"
  CVodeSVtolerances :: "'e \<Rightarrow> double \<Rightarrow> vec \<Rightarrow> int \<times> 'e"
  CVodeVStolerances :: "'e \<Rightarrow> vec \<Rightarrow> double \<Rightarrow> int \<times> 'e"
  CVodeVVtolerances :: "'e \<Rightarrow> vec \<Rightarrow> vec \<Rightarrow> int \<times> 'e"
  CVodeReInit :: "'e \<Rightarrow> double \<Rightarrow> vec \<Rightarrow> int \<times> 'e"
  CVodeSensReInit :: "'e \<Rightarrow> int \<Rightarrow> vec list \<Rightarrow> int \<times> 'e"
  CVode :: "'e \<Rightarrow> double \<Rightarrow> vec \<Rightarrow> int \<Rightarrow> int \<times> 'e \<times> vec \<times> double"
  CVodeGetSens :: "'e \<Rightarrow> vec list \<Rightarrow> int \<times> 'e \<times> double \<times> vec list"
  CVodeAdjReInit :: "'e \<Rightarrow> int \<times> 'e"
  CVodeF :: "'e \<Rightarrow> double \<Rightarrow> vec \<Rightarrow> int \<Rightarrow> int \<times> 'e \<times> vec \<times> double \<times> int"
  CVodeReInitB :: "'e \<Rightarrow> int \<Rightarrow> double \<Rightarrow> vec \<Rightarrow> int \<times> 'e"
  CVodeQuadReInitB :: "'e \<Rightarrow> int \<Rightarrow> vec \<Rightarrow> int \<times> 'e"
  CVodeB :: "'e \<Rightarrow> double \<Rightarrow> int \<Rightarrow> int \<times> 'e"
  CVodeGetB :: "'e \<Rightarrow> int \<Rightarrow> vec \<Rightarrow> int \<times> 'e \<times> double \<times> vec"
  CVodeGetQuadB :: "'e \<Rightarrow> int \<Rightarrow> vec \<Rightarrow> int \<times> 'e \<times> double \<times> vec"
  update_subset_params :: "'e \<Rightarrow> vec \<Rightarrow> error option \<times> 'e"
  update_remaining_params :: "'e \<Rightarrow> vec \<Rightarrow> error option \<times> 'e"

text \<open>
  The calls a solver makes into the engine, and what the backward pass does to its own
  buffers, in the order they happen. The code keeps no such list; it is how the
  theorems below speak about what a solve did and did not do.
\<close>

datatype buffer = StateB | Quad | QuadOut

datatype event =
    SStolerances | SVtolerances | VStolerances | VVtolerances
  | ReInit double vec
  | SensReInit int "vec list"
  | Step double
  | GetSens
  | AdjReInit
  | StepF double
  | ReInitB double vec
  | QuadReInitB vec
  | StepB double
  | GetB
  | GetQuadB
  | Zeroed buffer
  | Injected vec

section \<open>\<^verbatim>\<open>Solver\<close>\<close>

text \<open>
  The fields both solver classes have, then those of \<^verbatim>\<open>Solver\<close>. \<open>n_states\<close> and
  \<open>n_params\<close> are \<^verbatim>\<open>self._problem.n_states\<close> and \<^verbatim>\<open>self._problem.n_params\<close>.
\<close>

record 'e handle =
  ode :: 'e
  n_states :: nat
  n_params :: nat
  state_buffer :: vec
  atol :: "ndarray option"
  rtol :: "ndarray option"
  calls :: "event list"

record 'e Solver = "'e handle" +
  compute_sens :: bool
  sens_mode :: int
  sens_buffers :: "vec list"

text \<open>An engine call whose return value goes through \<^verbatim>\<open>check\<close>.\<close>

definition checked ::
  "'e basic \<Rightarrow> event \<Rightarrow> int \<times> 'e \<Rightarrow> ('e, 'z) handle_scheme \<Rightarrow> ('e, 'z) handle_scheme outcome"
where
  "checked B ev r s =
     (case r of (flag, e) \<Rightarrow> (check B flag, s\<lparr>ode := e, calls := calls s @ [ev]\<rparr>))"

text \<open>\<^verbatim>\<open>Solver._set_tolerances\<close>: the four branches in the order of the source.\<close>

definition Solver_set_tolerances ::
  "'e basic \<Rightarrow> ndarray \<Rightarrow> ndarray \<Rightarrow> ('e, 'z) handle_scheme \<Rightarrow> ('e, 'z) handle_scheme outcome"
where
  "Solver_set_tolerances B a r s =
     (case
        (case (a, r) of
           (Vector av, Vector rv) \<Rightarrow> checked B VVtolerances (CVodeVVtolerances B (ode s) rv av) s
         | (Vector av, Scalar rs) \<Rightarrow> checked B SVtolerances (CVodeSVtolerances B (ode s) rs av) s
         | (Scalar as, Vector rv) \<Rightarrow> checked B VStolerances (CVodeVStolerances B (ode s) rv as) s
         | (Scalar as, Scalar rs) \<Rightarrow> checked B SStolerances (CVodeSStolerances B (ode s) rs as) s
         | _ \<Rightarrow> (Some (ValueError ''Invalid tolerance.''), s))
      of
        (Some e, s') \<Rightarrow> (Some e, s')
      | (None, s') \<Rightarrow> (None, s'\<lparr>atol := Some a, rtol := Some r\<rparr>))"

subsection \<open>\<^verbatim>\<open>Solver.solve\<close>\<close>

text \<open>
  A pending statement runs only if nothing was raised before it.
\<close>

definition and_then :: "'s outcome \<Rightarrow> ('s \<Rightarrow> 's outcome) \<Rightarrow> 's outcome" where
  "and_then r f = (case r of (Some e, s) \<Rightarrow> (Some e, s) | (None, s) \<Rightarrow> f s)"

text \<open>
  \<^verbatim>\<open>for i in range(n_params): sens_data[i][:] = sens0[i, :]\<close>, where \<^verbatim>\<open>sens_data\<close> is
  the tuple of the data of \<^verbatim>\<open>self._sens_buffers\<close>.
\<close>

fun copy_sens0 :: "matrix \<Rightarrow> nat list \<Rightarrow> vec list \<Rightarrow> vec list outcome" where
  "copy_sens0 S [] bufs = (None, bufs)"
| "copy_sens0 S (i # is) bufs =
     (if length S \<le> i \<or> length bufs \<le> i then (Some IndexError, bufs)
      else case assign (bufs ! i) (S ! i) of
             (Some e, _) \<Rightarrow> (Some e, bufs)
           | (None, r) \<Rightarrow> copy_sens0 S is (bufs[i := r]))"

definition load_sens0 :: "matrix option \<Rightarrow> 'e Solver \<Rightarrow> 'e Solver outcome" where
  "load_sens0 sens0 s =
     (if compute_sens s then
        (case sens0 of
           None \<Rightarrow> (Some TypeError, s)
         | Some S \<Rightarrow>
             (case copy_sens0 S [0..<n_params s] (sens_buffers s) of
                (x, bufs) \<Rightarrow> (x, s\<lparr>sens_buffers := bufs\<rparr>)))
      else (None, s))"

definition load_state :: "vec \<Rightarrow> ('e, 'z) handle_scheme \<Rightarrow> ('e, 'z) handle_scheme outcome" where
  "load_state y0 s =
     (case assign (state_buffer s) y0 of (x, v) \<Rightarrow> (x, s\<lparr>state_buffer := v\<rparr>))"

text \<open>Everything \<^verbatim>\<open>solve\<close> does between its argument check and its loop.\<close>

definition solve_begin ::
  "'e basic \<Rightarrow> double \<Rightarrow> vec \<Rightarrow> matrix option \<Rightarrow> 'e Solver \<Rightarrow> 'e Solver outcome"
where
  "solve_begin B t0 y0 sens0 s =
     and_then (and_then (and_then (load_sens0 sens0 s)
       (load_state y0))
       (\<lambda>s. checked B (ReInit t0 (state_buffer s)) (CVodeReInit B (ode s) t0 (state_buffer s)) s))
       (\<lambda>s. if compute_sens s
             then checked B (SensReInit (sens_mode s) (sens_buffers s))
                    (CVodeSensReInit B (ode s) (sens_mode s) (sens_buffers s)) s
             else (None, s))"

text \<open>
  \<^verbatim>\<open>retval = TOO_MUCH_WORK\<close>, then \<^verbatim>\<open>while retval == TOO_MUCH_WORK\<close>: call \<^verbatim>\<open>CVode\<close>,
  raise on a return value that is neither \<^verbatim>\<open>TOO_MUCH_WORK\<close> nor 0. The loop has no
  counter; when it never ends the result is \<open>None\<close>.
\<close>

definition call_CVode :: "'e basic \<Rightarrow> double \<Rightarrow> 'e Solver \<Rightarrow> int \<times> 'e Solver" where
  "call_CVode B t s =
     (case CVode B (ode s) t (state_buffer s) (CV_NORMAL B) of
        (retval, e, y, tret) \<Rightarrow>
          (retval, s\<lparr>ode := e, state_buffer := y, calls := calls s @ [Step t]\<rparr>))"

partial_function (option) step_loop :: "'e basic \<Rightarrow> double \<Rightarrow> 'e Solver \<Rightarrow> 'e Solver outcome option"
where
  "step_loop B t s =
     (case call_CVode B t s of
        (retval, s') \<Rightarrow>
          if retval \<noteq> CV_TOO_MUCH_WORK B \<and> retval \<noteq> 0 then
            (case ERRORS B retval of
               None \<Rightarrow> Some (Some (KeyError retval), s')
             | Some name \<Rightarrow> Some (Some (SolverError (BadReturnCode name retval)), s'))
          else if retval = CV_TOO_MUCH_WORK B then step_loop B t s'
          else Some (None, s'))"

declare step_loop.simps [code]

text \<open>\<^verbatim>\<open>for j in range(n_params): sens_out[i, j, :] = sens_data[j]\<close>.\<close>

fun copy_sens_out :: "nat \<Rightarrow> nat list \<Rightarrow> vec list \<Rightarrow> tensor \<Rightarrow> tensor outcome" where
  "copy_sens_out i [] bufs T = (None, T)"
| "copy_sens_out i (j # js) bufs T =
     (if length bufs \<le> j then (Some IndexError, T)
      else case set_cell_row T i j (bufs ! j) of
             (Some e, T') \<Rightarrow> (Some e, T')
           | (None, T') \<Rightarrow> copy_sens_out i js bufs T')"

text \<open>
  The state of the loop: the solver and the two arrays the caller passed in,
  \<^verbatim>\<open>y_out\<close> and \<^verbatim>\<open>sens_out\<close> (which may be \<^verbatim>\<open>None\<close>).
\<close>

type_synonym 'e solve_state = "'e Solver \<times> matrix \<times> tensor option"

text \<open>The branch \<^verbatim>\<open>if t == t0\<close>: both writes go to index 0.\<close>

definition solve_at_t0 :: "vec \<Rightarrow> matrix option \<Rightarrow> 'e solve_state \<Rightarrow> 'e solve_state outcome" where
  "solve_at_t0 y0 sens0 st =
     (case st of (s, Y, T) \<Rightarrow>
        (case set_row Y 0 y0 of
           (Some e, Y') \<Rightarrow> (Some e, (s, Y', T))
         | (None, Y') \<Rightarrow>
             if compute_sens s then
               (case (T, sens0) of
                  (Some Tm, Some S) \<Rightarrow> (case set_slab Tm 0 S of (x, T') \<Rightarrow> (x, (s, Y', Some T')))
                | _ \<Rightarrow> (Some TypeError, (s, Y', T)))
             else (None, (s, Y', T))))"

text \<open>After the stepping loop: \<^verbatim>\<open>y_out[i, :] = state_data\<close> and the read-back of the sensitivities.\<close>

definition solve_read_out :: "'e basic \<Rightarrow> nat \<Rightarrow> 'e solve_state \<Rightarrow> 'e solve_state outcome" where
  "solve_read_out B i st =
     (case st of (s, Y, T) \<Rightarrow>
        (case set_row Y i (state_buffer s) of
           (Some e, Y') \<Rightarrow> (Some e, (s, Y', T))
         | (None, Y') \<Rightarrow>
             if compute_sens s then
               (case CVodeGetSens B (ode s) (sens_buffers s) of
                  (flag, e, tret, bufs) \<Rightarrow>
                    (let s' = s\<lparr>ode := e, sens_buffers := bufs, calls := calls s @ [GetSens]\<rparr> in
                     case check B flag of
                       Some err \<Rightarrow> (Some err, (s', Y', T))
                     | None \<Rightarrow>
                         (case T of
                            None \<Rightarrow> (Some TypeError, (s', Y', T))
                          | Some Tm \<Rightarrow>
                              (case copy_sens_out i [0..<n_params s'] (sens_buffers s') Tm of
                                 (x, T') \<Rightarrow> (x, (s', Y', Some T'))))))
             else (None, (s, Y', T))))"

definition solve_body ::
  "'e basic \<Rightarrow> double \<Rightarrow> vec \<Rightarrow> matrix option \<Rightarrow> nat \<Rightarrow> double \<Rightarrow> 'e solve_state
     \<Rightarrow> 'e solve_state outcome option"
where
  "solve_body B t0 y0 sens0 i t st =
     (case st of (s, Y, T) \<Rightarrow>
        if feq t t0 then Some (solve_at_t0 y0 sens0 st)
        else (case step_loop B t s of
                None \<Rightarrow> None
              | Some (Some e, s') \<Rightarrow> Some (Some e, (s', Y, T))
              | Some (None, s') \<Rightarrow> Some (solve_read_out B i (s', Y, T))))"

text \<open>\<^verbatim>\<open>for i, t in enumerate(tvals)\<close>, from index \<open>i\<close> on.\<close>

fun solve_loop ::
  "'e basic \<Rightarrow> double \<Rightarrow> vec \<Rightarrow> matrix option \<Rightarrow> nat \<Rightarrow> double list \<Rightarrow> 'e solve_state
     \<Rightarrow> 'e solve_state outcome option"
where
  "solve_loop B t0 y0 sens0 i [] st = Some (None, st)"
| "solve_loop B t0 y0 sens0 i (t # ts) st =
     (case solve_body B t0 y0 sens0 i t st of
        None \<Rightarrow> None
      | Some (Some e, st') \<Rightarrow> Some (Some e, st')
      | Some (None, st') \<Rightarrow> solve_loop B t0 y0 sens0 (Suc i) ts st')"

text \<open>
  \<^verbatim>\<open>Solver.solve\<close>; the message of its \<^verbatim>\<open>ValueError\<close> is written without the double
  quotes it has around the two names.
\<close>

definition solve ::
  "'e basic \<Rightarrow> 'e Solver \<Rightarrow> double \<Rightarrow> double list \<Rightarrow> vec \<Rightarrow> matrix \<Rightarrow> matrix option
     \<Rightarrow> tensor option \<Rightarrow> 'e solve_state outcome option"
where
  "solve B s t0 tvals y0 y_out sens0 sens_out =
     (if compute_sens s \<and> (sens0 = None \<or> sens_out = None) then
        Some (Some (ValueError ''sens_out and sens0 are required when computin sensitivities.''),
              (s, y_out, sens_out))
      else (case solve_begin B t0 y0 sens0 s of
              (Some e, s') \<Rightarrow> Some (Some e, (s', y_out, sens_out))
            | (None, s') \<Rightarrow> solve_loop B t0 y0 sens0 0 tvals (s', y_out, sens_out)))"

section \<open>\<^verbatim>\<open>AdjointSolver\<close>\<close>

record 'e AdjointSolver = "'e handle" +
  odeB :: int
  state_bufferB :: vec
  quad_buffer :: vec
  quad_buffer_out :: vec

text \<open>\<^verbatim>\<open>AdjointSolver._set_tolerances\<close> has two branches only.\<close>

definition AdjointSolver_set_tolerances ::
  "'e basic \<Rightarrow> ndarray \<Rightarrow> ndarray \<Rightarrow> ('e, 'z) handle_scheme \<Rightarrow> ('e, 'z) handle_scheme outcome"
where
  "AdjointSolver_set_tolerances B a r s =
     (case
        (case (a, r) of
           (Vector av, Scalar rs) \<Rightarrow> checked B SVtolerances (CVodeSVtolerances B (ode s) rs av) s
         | (Scalar as, Scalar rs) \<Rightarrow> checked B SStolerances (CVodeSStolerances B (ode s) rs as) s
         | _ \<Rightarrow> (Some (ValueError ''Invalid tolerance.''), s))
      of
        (Some e, s') \<Rightarrow> (Some e, s')
      | (None, s') \<Rightarrow> (None, s'\<lparr>atol := Some a, rtol := Some r\<rparr>))"

definition make_output_buffers :: "('e, 'z) handle_scheme \<Rightarrow> double list \<Rightarrow> matrix \<times> vec \<times> vec" where
  "make_output_buffers s tvals =
     (replicate (length tvals) (replicate (n_states s) (Num 0)),
      replicate (n_params s) (Num 0),
      replicate (n_states s) (Num 0))"

subsection \<open>\<^verbatim>\<open>AdjointSolver.solve_forward\<close>\<close>

definition solve_forward_begin ::
  "'e basic \<Rightarrow> double \<Rightarrow> vec \<Rightarrow> 'e AdjointSolver \<Rightarrow> 'e AdjointSolver outcome"
where
  "solve_forward_begin B t0 y0 s =
     and_then (and_then (load_state y0 s)
       (\<lambda>s. checked B (ReInit t0 (state_buffer s)) (CVodeReInit B (ode s) t0 (state_buffer s)) s))
       (\<lambda>s. checked B AdjReInit (CVodeAdjReInit B (ode s)) s)"

text \<open>The same \<^verbatim>\<open>while\<close> loop as in \<^verbatim>\<open>Solver.solve\<close>, around \<^verbatim>\<open>CVodeF\<close>; its \<^verbatim>\<open>n_check\<close> is written and never read.\<close>

definition call_CVodeF :: "'e basic \<Rightarrow> double \<Rightarrow> 'e AdjointSolver \<Rightarrow> int \<times> 'e AdjointSolver" where
  "call_CVodeF B t s =
     (case CVodeF B (ode s) t (state_buffer s) (CV_NORMAL B) of
        (retval, e, y, tret, ncheck) \<Rightarrow>
          (retval, s\<lparr>ode := e, state_buffer := y, calls := calls s @ [StepF t]\<rparr>))"

partial_function (option) stepF_loop ::
  "'e basic \<Rightarrow> double \<Rightarrow> 'e AdjointSolver \<Rightarrow> 'e AdjointSolver outcome option"
where
  "stepF_loop B t s =
     (case call_CVodeF B t s of
        (retval, s') \<Rightarrow>
          if retval \<noteq> CV_TOO_MUCH_WORK B \<and> retval \<noteq> 0 then
            (case ERRORS B retval of
               None \<Rightarrow> Some (Some (KeyError retval), s')
             | Some name \<Rightarrow> Some (Some (SolverError (BadReturnCode name retval)), s'))
          else if retval = CV_TOO_MUCH_WORK B then stepF_loop B t s'
          else Some (None, s'))"

declare stepF_loop.simps [code]

type_synonym 'e forward_state = "'e AdjointSolver \<times> matrix"

definition solve_forward_body ::
  "'e basic \<Rightarrow> double \<Rightarrow> vec \<Rightarrow> nat \<Rightarrow> double \<Rightarrow> 'e forward_state \<Rightarrow> 'e forward_state outcome option"
where
  "solve_forward_body B t0 y0 i t st =
     (case st of (s, Y) \<Rightarrow>
        if feq t t0 then Some (case set_row Y 0 y0 of (x, Y') \<Rightarrow> (x, (s, Y')))
        else (case stepF_loop B t s of
                None \<Rightarrow> None
              | Some (Some e, s') \<Rightarrow> Some (Some e, (s', Y))
              | Some (None, s') \<Rightarrow>
                  Some (case set_row Y i (state_buffer s') of (x, Y') \<Rightarrow> (x, (s', Y')))))"

fun solve_forward_loop ::
  "'e basic \<Rightarrow> double \<Rightarrow> vec \<Rightarrow> nat \<Rightarrow> double list \<Rightarrow> 'e forward_state \<Rightarrow> 'e forward_state outcome option"
where
  "solve_forward_loop B t0 y0 i [] st = Some (None, st)"
| "solve_forward_loop B t0 y0 i (t # ts) st =
     (case solve_forward_body B t0 y0 i t st of
        None \<Rightarrow> None
      | Some (Some e, st') \<Rightarrow> Some (Some e, st')
      | Some (None, st') \<Rightarrow> solve_forward_loop B t0 y0 (Suc i) ts st')"

definition solve_forward ::
  "'e basic \<Rightarrow> 'e AdjointSolver \<Rightarrow> double \<Rightarrow> double list \<Rightarrow> vec \<Rightarrow> matrix
     \<Rightarrow> 'e forward_state outcome option"
where
  "solve_forward B s t0 tvals y0 y_out =
     (case solve_forward_begin B t0 y0 s of
        (Some e, s') \<Rightarrow> Some (Some e, (s', y_out))
      | (None, s') \<Rightarrow> solve_forward_loop B t0 y0 0 tvals (s', y_out))"

subsection \<open>\<^verbatim>\<open>AdjointSolver.solve_backward\<close>\<close>

text \<open>
  The local \<^verbatim>\<open>time_p\<close> and the arrays the caller passed in; the last two may be
  \<^verbatim>\<open>None\<close>.
\<close>

record backward_frame =
  time_p :: double
  grad_out :: vec
  lamda_out :: vec
  lamda_all_out :: "matrix option"
  quad_all_out :: "matrix option"

type_synonym 'e backward_state = "'e AdjointSolver \<times> backward_frame"

text \<open>
  \<^verbatim>\<open>for retry in range(max_retries)\<close> with its \<^verbatim>\<open>else\<close> clause; the number is that of
  the iterations left.
\<close>

definition call_CVodeB :: "'e basic \<Rightarrow> double \<Rightarrow> 'e AdjointSolver \<Rightarrow> int \<times> 'e AdjointSolver" where
  "call_CVodeB B t_lower s =
     (case CVodeB B (ode s) t_lower (CV_NORMAL B) of
        (retval, e) \<Rightarrow> (retval, s\<lparr>ode := e, calls := calls s @ [StepB t_lower]\<rparr>))"

fun retry_loop ::
  "'e basic \<Rightarrow> double \<Rightarrow> double \<Rightarrow> nat \<Rightarrow> 'e AdjointSolver \<Rightarrow> 'e AdjointSolver outcome"
where
  "retry_loop B t_lower t_upper 0 s = (Some (SolverError (TooManyRetries t_upper t_lower)), s)"
| "retry_loop B t_lower t_upper (Suc n) s =
     (case call_CVodeB B t_lower s of
        (retval, s') \<Rightarrow>
          if retval = 0 then (None, s')
          else if retval \<noteq> CV_TOO_MUCH_WORK B then
            (case ERRORS B retval of
               None \<Rightarrow> (Some (KeyError retval), s')
             | Some name \<Rightarrow> (Some (SolverError (FailedBetween t_upper t_lower name retval)), s'))
          else retry_loop B t_lower t_upper n s')"

text \<open>\<^verbatim>\<open>check(CVodeReInitB(...))\<close> and \<^verbatim>\<open>check(CVodeQuadReInitB(...))\<close>.\<close>

definition reinit_backward :: "'e basic \<Rightarrow> double \<Rightarrow> 'e AdjointSolver \<Rightarrow> 'e AdjointSolver outcome" where
  "reinit_backward B t_upper s =
     and_then
       (checked B (ReInitB t_upper (state_bufferB s))
          (CVodeReInitB B (ode s) (odeB s) t_upper (state_bufferB s)) s)
       (\<lambda>s. checked B (QuadReInitB (quad_buffer s))
               (CVodeQuadReInitB B (ode s) (odeB s) (quad_buffer s)) s)"

text \<open>The two read-backs after the retry loop, the copy of the quadrature and the assertion.\<close>

definition read_back :: "'e basic \<Rightarrow> double \<Rightarrow> 'e backward_state \<Rightarrow> 'e backward_state outcome" where
  "read_back B t_lower st =
     (case st of (s, f) \<Rightarrow>
        (case CVodeGetB B (ode s) (odeB s) (state_bufferB s) of
           (flag, e, tret, y) \<Rightarrow>
             (let s2 = s\<lparr>ode := e, state_bufferB := y, calls := calls s @ [GetB]\<rparr>;
                  f2 = f\<lparr>time_p := tret\<rparr>
              in case check B flag of
                   Some err \<Rightarrow> (Some err, (s2, f2))
                 | None \<Rightarrow>
                     (case CVodeGetQuadB B (ode s2) (odeB s2) (quad_buffer_out s2) of
                        (flag', e', tret', q) \<Rightarrow>
                          (let s3 = s2\<lparr>ode := e', quad_buffer_out := q, calls := calls s2 @ [GetQuadB]\<rparr>;
                               f3 = f2\<lparr>time_p := tret'\<rparr>
                           in case check B flag' of
                                Some err \<Rightarrow> (Some err, (s3, f3))
                              | None \<Rightarrow>
                                  (case assign (quad_buffer s3) (quad_buffer_out s3) of
                                     (Some err, _) \<Rightarrow> (Some err, (s3, f3))
                                   | (None, q') \<Rightarrow>
                                       (if feq (time_p f3) t_lower
                                        then (None, (s3\<lparr>quad_buffer := q'\<rparr>, f3))
                                        else (Some (AssertionError (time_p f3) t_lower),
                                              (s3\<lparr>quad_buffer := q'\<rparr>, f3)))))))))"

text \<open>The block under \<^verbatim>\<open>if t_lower < t_upper\<close>.\<close>

definition backward_interval ::
  "'e basic \<Rightarrow> double \<Rightarrow> double \<Rightarrow> nat \<Rightarrow> 'e backward_state \<Rightarrow> 'e backward_state outcome"
where
  "backward_interval B t_lower t_upper retries st =
     (case st of (s, f) \<Rightarrow>
        (case and_then (reinit_backward B t_upper s) (retry_loop B t_lower t_upper retries) of
           (Some e, s') \<Rightarrow> (Some e, (s', f))
         | (None, s') \<Rightarrow> read_back B t_lower (s', f)))"

text \<open>The block under \<^verbatim>\<open>if grad is not None\<close>.\<close>

definition inject :: "nat \<Rightarrow> vec \<Rightarrow> 'e backward_state \<Rightarrow> 'e backward_state outcome" where
  "inject i g st =
     (case st of (s, f) \<Rightarrow>
        (case isub (state_bufferB s) g of
           (Some e, _) \<Rightarrow> (Some e, st)
         | (None, v) \<Rightarrow>
             (let s' = s\<lparr>state_bufferB := v, calls := calls s @ [Injected g]\<rparr> in
              case (case lamda_all_out f of
                      None \<Rightarrow> (None, f)
                    | Some m \<Rightarrow> (case set_row_neg m i (state_bufferB s') of
                                  (x, m') \<Rightarrow> (x, f\<lparr>lamda_all_out := Some m'\<rparr>))) of
                (Some e, f1) \<Rightarrow> (Some e, (s', f1))
              | (None, f1) \<Rightarrow>
                  (case quad_all_out f1 of
                     None \<Rightarrow> (None, (s', f1))
                   | Some m \<Rightarrow> (case set_row_neg m i (quad_buffer s') of
                                 (x, m') \<Rightarrow> (x, (s', f1\<lparr>quad_all_out := Some m'\<rparr>)))))))"

definition backward_body ::
  "'e basic \<Rightarrow> nat \<Rightarrow> nat \<Rightarrow> (double \<times> double) \<times> vec option \<Rightarrow> 'e backward_state
     \<Rightarrow> 'e backward_state outcome"
where
  "backward_body B retries i x st =
     (case x of ((t_lower, t_upper), grad) \<Rightarrow>
        and_then
          (if flt t_lower t_upper then backward_interval B t_lower t_upper retries st else (None, st))
          (\<lambda>st. case grad of None \<Rightarrow> (None, st) | Some g \<Rightarrow> inject i g st))"

fun backward_loop ::
  "'e basic \<Rightarrow> nat \<Rightarrow> nat \<Rightarrow> ((double \<times> double) \<times> vec option) list \<Rightarrow> 'e backward_state
     \<Rightarrow> 'e backward_state outcome"
where
  "backward_loop B retries i [] st = (None, st)"
| "backward_loop B retries i (x # xs) st =
     (case backward_body B retries i x st of
        (Some e, st') \<Rightarrow> (Some e, st')
      | (None, st') \<Rightarrow> backward_loop B retries (Suc i) xs st')"

text \<open>
  \<^verbatim>\<open>ts = [t0] + list(tvals[::-1]) + [tend]\<close>, \<^verbatim>\<open>t_intervals = zip(ts[1:], ts[:-1])\<close>,
  \<^verbatim>\<open>grads = [None] + list(grads)\<close> and \<^verbatim>\<open>zip(t_intervals, reversed(grads))\<close>.
\<close>

definition t_intervals :: "double \<Rightarrow> double \<Rightarrow> double list \<Rightarrow> (double \<times> double) list" where
  "t_intervals t0 tend tvals = (let ts = [t0] @ rev tvals @ [tend] in zip (tl ts) (butlast ts))"

definition intervals_with_grads ::
  "double \<Rightarrow> double \<Rightarrow> double list \<Rightarrow> vec list \<Rightarrow> ((double \<times> double) \<times> vec option) list"
where
  "intervals_with_grads t0 tend tvals grads =
     zip (t_intervals t0 tend tvals) (rev ([None] @ map Some grads))"

definition zero_buffers :: "'e AdjointSolver \<Rightarrow> 'e AdjointSolver" where
  "zero_buffers s =
     s\<lparr>state_bufferB := fill (state_bufferB s) (Num 0),
       quad_buffer := fill (quad_buffer s) (Num 0),
       quad_buffer_out := fill (quad_buffer_out s) (Num 0),
       calls := calls s @ [Zeroed StateB, Zeroed Quad, Zeroed QuadOut]\<rparr>"

text \<open>\<^verbatim>\<open>grad_out[:] = quad_out_data\<close> and \<^verbatim>\<open>lamda_out[:] = state_data\<close>.\<close>

definition write_results :: "'e backward_state \<Rightarrow> 'e backward_state outcome" where
  "write_results st =
     (case st of (s, f) \<Rightarrow>
        (case assign (grad_out f) (quad_buffer_out s) of
           (Some e, _) \<Rightarrow> (Some e, st)
         | (None, g) \<Rightarrow>
             (case assign (lamda_out f) (state_bufferB s) of
                (x, l) \<Rightarrow> (x, (s, f\<lparr>grad_out := g, lamda_out := l\<rparr>)))))"

definition solve_backward ::
  "'e basic \<Rightarrow> 'e AdjointSolver \<Rightarrow> double \<Rightarrow> double \<Rightarrow> double list \<Rightarrow> vec list \<Rightarrow> vec \<Rightarrow> vec
     \<Rightarrow> matrix option \<Rightarrow> matrix option \<Rightarrow> int \<Rightarrow> 'e backward_state outcome"
where
  "solve_backward B s t0 tend tvals grads grad_out' lamda_out' lamda_all_out' quad_all_out' max_retries =
     and_then
       (backward_loop B (nat max_retries) 0 (intervals_with_grads t0 tend tvals grads)
          (zero_buffers s,
           \<lparr>time_p = t0, grad_out = grad_out', lamda_out = lamda_out',
            lamda_all_out = lamda_all_out', quad_all_out = quad_all_out'\<rparr>))
       write_results"

section \<open>The Theano operations of \<^verbatim>\<open>sunode/wrappers/as_theano.py\<close>\<close>

text \<open>
  \<^verbatim>\<open>set_derivative_params\<close> and \<^verbatim>\<open>set_remaining_params\<close> hand their argument to the
  problem object, which writes it into the user-data buffer the engine reads.
\<close>

definition set_derivative_params ::
  "'e basic \<Rightarrow> vec \<Rightarrow> ('e, 'z) handle_scheme \<Rightarrow> ('e, 'z) handle_scheme outcome"
where
  "set_derivative_params B params s =
     (case update_subset_params B (ode s) params of (x, e) \<Rightarrow> (x, s\<lparr>ode := e\<rparr>))"

definition set_remaining_params ::
  "'e basic \<Rightarrow> vec \<Rightarrow> ('e, 'z) handle_scheme \<Rightarrow> ('e, 'z) handle_scheme outcome"
where
  "set_remaining_params B params s =
     (case update_remaining_params B (ode s) params of (x, e) \<Rightarrow> (x, s\<lparr>ode := e\<rparr>))"

text \<open>
  \<^verbatim>\<open>SolveODEAdjoint\<close> and \<^verbatim>\<open>SolveODEAdjointBackward\<close> have the same fields and the same
  constructor.
\<close>

record 'e adjoint_op =
  op_solver :: "'e AdjointSolver"
  op_t0 :: double
  op_tvals :: "double list"
  op_y_out :: matrix
  op_grad_out :: vec
  op_lamda_out :: vec

definition adjoint_op_init :: "'e AdjointSolver \<Rightarrow> double \<Rightarrow> double list \<Rightarrow> 'e adjoint_op" where
  "adjoint_op_init solver t0 tvals =
     (case make_output_buffers solver tvals of
        (y, g, l) \<Rightarrow>
          \<lparr>op_solver = solver, op_t0 = t0, op_tvals = tvals,
           op_y_out = y, op_grad_out = g, op_lamda_out = l\<rparr>)"

text \<open>\<^verbatim>\<open>except SolverError\<close> catches this class only.\<close>

fun is_SolverError :: "error \<Rightarrow> bool" where
  "is_SolverError (SolverError _) = True"
| "is_SolverError _ = False"

text \<open>
  \<^verbatim>\<open>SolveODEAdjoint.perform\<close>. Its result is the operation, whose buffers it has
  written, and \<^verbatim>\<open>outputs[0][0]\<close>, which stays unset when an exception leaves the
  function.
\<close>

definition SolveODEAdjoint_perform ::
  "'e basic \<Rightarrow> 'e adjoint_op \<Rightarrow> vec \<times> vec \<times> vec \<Rightarrow> ('e adjoint_op \<times> matrix option) outcome option"
where
  "SolveODEAdjoint_perform B op inputs =
     (case inputs of (y0, params, params_fixed) \<Rightarrow>
        (case and_then (set_derivative_params B params (op_solver op))
                (set_remaining_params B params_fixed) of
           (Some e, s) \<Rightarrow> Some (Some e, (op\<lparr>op_solver := s\<rparr>, None))
         | (None, s) \<Rightarrow>
             (case solve_forward B s (op_t0 op) (op_tvals op) y0 (op_y_out op) of
                None \<Rightarrow> None
              | Some (None, (s', Y)) \<Rightarrow>
                  Some (None, (op\<lparr>op_solver := s', op_y_out := Y\<rparr>, Some Y))
              | Some (Some e, (s', Y)) \<Rightarrow>
                  if is_SolverError e then
                    (let Y' = map (\<lambda>row. fill row NaN) Y in
                     Some (None, (op\<lparr>op_solver := s', op_y_out := Y'\<rparr>, Some Y')))
                  else Some (Some e, (op\<lparr>op_solver := s', op_y_out := Y\<rparr>, None)))))"

text \<open>
  The \<^verbatim>\<open>except\<close> clause of \<^verbatim>\<open>SolveODEAdjointBackward.perform\<close> and the two copies after
  it.
\<close>

definition backward_finish ::
  "error option \<Rightarrow> 'e adjoint_op \<Rightarrow> ('e adjoint_op \<times> (vec \<times> vec) option) outcome"
where
  "backward_finish x op =
     (case x of
        None \<Rightarrow> (None, (op, Some (op_lamda_out op, op_grad_out op)))
      | Some e \<Rightarrow>
          if is_SolverError e then
            (let op' = op\<lparr>op_lamda_out := fill (op_lamda_out op) NaN,
                          op_grad_out := fill (op_grad_out op) NaN\<rparr>
             in (None, (op', Some (op_lamda_out op', op_grad_out op'))))
          else (Some e, (op, None)))"

text \<open>
  \<^verbatim>\<open>SolveODEAdjointBackward.perform\<close>: the forward solve, then
  \<^verbatim>\<open>solve_backward(self._tvals[-1], self._t0, self._tvals, grads, self._grad_out,
  self._lamda_out)\<close> with the default \<^verbatim>\<open>max_retries=50\<close>, both inside the \<^verbatim>\<open>try\<close>.
  The outputs are \<^verbatim>\<open>(outputs[0][0], outputs[1][0])\<close>.
\<close>

definition SolveODEAdjointBackward_perform ::
  "'e basic \<Rightarrow> 'e adjoint_op \<Rightarrow> vec \<times> vec \<times> vec \<times> matrix
     \<Rightarrow> ('e adjoint_op \<times> (vec \<times> vec) option) outcome option"
where
  "SolveODEAdjointBackward_perform B op inputs =
     (case inputs of (y0, params, params_fixed, grads) \<Rightarrow>
        (case and_then (set_derivative_params B params (op_solver op))
                (set_remaining_params B params_fixed) of
           (Some e, s) \<Rightarrow> Some (Some e, (op\<lparr>op_solver := s\<rparr>, None))
         | (None, s) \<Rightarrow>
             (case solve_forward B s (op_t0 op) (op_tvals op) y0 (op_y_out op) of
                None \<Rightarrow> None
              | Some (Some e, (s1, Y)) \<Rightarrow>
                  Some (backward_finish (Some e) (op\<lparr>op_solver := s1, op_y_out := Y\<rparr>))
              | Some (None, (s1, Y)) \<Rightarrow>
                  if op_tvals op = [] then
                    Some (backward_finish (Some IndexError) (op\<lparr>op_solver := s1, op_y_out := Y\<rparr>))
                  else
                    (case solve_backward B s1 (last (op_tvals op)) (op_t0 op) (op_tvals op) grads
                            (op_grad_out op) (op_lamda_out op) None None 50 of
                       (x, (s2, f)) \<Rightarrow>
                         Some (backward_finish x
                                 (op\<lparr>op_solver := s2, op_y_out := Y,
                                     op_grad_out := grad_out f, op_lamda_out := lamda_out f\<rparr>))))))"

text \<open>
  \<^verbatim>\<open>SolveODEAdjoint.grad\<close> builds the graph \<^verbatim>\<open>[-lamda, gradient, grad_not_implemented]\<close>
  over the two outputs of a new backward operation on the same solver. Its value, once
  the graph is evaluated, is that of the backward operation's \<^verbatim>\<open>perform\<close> on
  \<^verbatim>\<open>(y0, params, params_fixed, g)\<close>, with the first output negated.
\<close>

datatype gradient = Gradient vec | NotImplemented

definition SolveODEAdjoint_grad ::
  "'e basic \<Rightarrow> 'e adjoint_op \<Rightarrow> vec \<times> vec \<times> vec \<Rightarrow> matrix
     \<Rightarrow> ('e adjoint_op \<times> gradient list) outcome option"
where
  "SolveODEAdjoint_grad B op inputs g =
     (case inputs of (y0, params, params_fixed) \<Rightarrow>
        (let backward = adjoint_op_init (op_solver op) (op_t0 op) (op_tvals op) in
         case SolveODEAdjointBackward_perform B backward (y0, params, params_fixed, g) of
           None \<Rightarrow> None
         | Some (Some e, (backward', _)) \<Rightarrow> Some (Some e, (backward', []))
         | Some (None, (backward', None)) \<Rightarrow> Some (Some TypeError, (backward', []))
         | Some (None, (backward', Some (lamda, gradient))) \<Rightarrow>
             Some (None, (backward', [Gradient (map fneg lamda), Gradient gradient, NotImplemented]))))"

section \<open>An engine for the examples\<close>

text \<open>
  The examples below run the solvers on an engine that answers the step requests
  \<^verbatim>\<open>CVode\<close>, \<^verbatim>\<open>CVodeF\<close> and \<^verbatim>\<open>CVodeB\<close> with the return codes of a script, and with 0
  once the script is used up. It remembers the time of the last request; a
  successful forward step sets every entry of the state to that time, and the
  read-backs report it. Every other call succeeds and changes nothing.
\<close>

type_synonym scripted = "int list \<times> double"

definition next_code :: "scripted \<Rightarrow> double \<Rightarrow> int \<times> scripted" where
  "next_code e t = (case fst e of [] \<Rightarrow> (0, ([], t)) | c # cs \<Rightarrow> (c, (cs, t)))"

definition scripted_engine :: "scripted basic" where
  "scripted_engine =
     \<lparr>check = (\<lambda>flag. if flag = 0 then None else Some (CheckError flag)),
      ERRORS = (\<lambda>c. if c = - 1 then Some ''CV_TOO_MUCH_WORK''
                     else if c = - 4 then Some ''CV_CONV_FAILURE'' else None),
      CV_TOO_MUCH_WORK = - 1,
      CV_NORMAL = 1,
      CVodeSStolerances = (\<lambda>e r a. (0, e)),
      CVodeSVtolerances = (\<lambda>e r a. (0, e)),
      CVodeVStolerances = (\<lambda>e r a. (0, e)),
      CVodeVVtolerances = (\<lambda>e r a. (0, e)),
      CVodeReInit = (\<lambda>e t y. (0, e)),
      CVodeSensReInit = (\<lambda>e m ys. (0, e)),
      CVode = (\<lambda>e t y itask. case next_code e t of
                 (c, e') \<Rightarrow> (c, e', if c = 0 then fill y t else y, t)),
      CVodeGetSens = (\<lambda>e ys. (0, e, snd e, map (\<lambda>y. fill y (snd e)) ys)),
      CVodeAdjReInit = (\<lambda>e. (0, e)),
      CVodeF = (\<lambda>e t y itask. case next_code e t of
                  (c, e') \<Rightarrow> (c, e', if c = 0 then fill y t else y, t, 0)),
      CVodeReInitB = (\<lambda>e which t y. (0, e)),
      CVodeQuadReInitB = (\<lambda>e which q. (0, e)),
      CVodeB = (\<lambda>e t itask. next_code e t),
      CVodeGetB = (\<lambda>e which y. (0, e, snd e, y)),
      CVodeGetQuadB = (\<lambda>e which q. (0, e, snd e, q)),
      update_subset_params = (\<lambda>e p. (None, e)),
      update_remaining_params = (\<lambda>e p. (None, e))\<rparr>"

text \<open>A solver and an adjoint solver for one state and one parameter, on a given script.\<close>

definition demo_solver :: "int list \<Rightarrow> bool \<Rightarrow> scripted Solver" where
  "demo_solver script sens =
     \<lparr>ode = (script, Num 0), n_states = 1, n_params = 1, state_buffer = [Num 0],
      atol = None, rtol = None, calls = [],
      compute_sens = sens, sens_mode = 1, sens_buffers = [[Num 0]]\<rparr>"

definition demo_adjoint :: "int list \<Rightarrow> scripted AdjointSolver" where
  "demo_adjoint script =
     \<lparr>ode = (script, Num 0), n_states = 1, n_params = 1, state_buffer = [Num 0],
      atol = None, rtol = None, calls = [],
      odeB = 0, state_bufferB = [Num 7], quad_buffer = [Num 7], quad_buffer_out = [Num 7]\<rparr>"

section \<open>Assumptions about the engine\<close>

text \<open>
  What a theorem below may ask of the engine. The tolerance functions accept what they
  are given: \<^verbatim>\<open>check\<close> lets their return value pass.
\<close>

definition accepts_tolerances :: "'e basic \<Rightarrow> bool" where
  "accepts_tolerances B \<longleftrightarrow>
     (\<forall>e r a. check B (fst (CVodeSStolerances B e r a)) = None) \<and>
     (\<forall>e r a. check B (fst (CVodeSVtolerances B e r a)) = None) \<and>
     (\<forall>e r a. check B (fst (CVodeVStolerances B e r a)) = None) \<and>
     (\<forall>e r a. check B (fst (CVodeVVtolerances B e r a)) = None)"

text \<open>The solver after \<open>k\<close> requests in a row to step to the time \<open>t\<close>.\<close>

definition after_CVode :: "'e basic \<Rightarrow> double \<Rightarrow> nat \<Rightarrow> 'e Solver \<Rightarrow> 'e Solver" where
  "after_CVode B t k s = ((\<lambda>s. snd (call_CVode B t s)) ^^ k) s"

definition after_CVodeF :: "'e basic \<Rightarrow> double \<Rightarrow> nat \<Rightarrow> 'e AdjointSolver \<Rightarrow> 'e AdjointSolver" where
  "after_CVodeF B t k s = ((\<lambda>s. snd (call_CVodeF B t s)) ^^ k) s"

definition after_CVodeB :: "'e basic \<Rightarrow> double \<Rightarrow> nat \<Rightarrow> 'e AdjointSolver \<Rightarrow> 'e AdjointSolver" where
  "after_CVodeB B t k s = ((\<lambda>s. snd (call_CVodeB B t s)) ^^ k) s"







section \<open>Helper lemmas\<close>

lemma checked_pass:
  "check B (fst r) = None \<Longrightarrow> checked B ev r s = (None, s\<lparr>ode := snd r, calls := calls s @ [ev]\<rparr>)"
  by (cases r) (simp add: checked_def)

lemma fill_replicate: "fill dst c = replicate (length dst) c"
  by (simp add: fill_def map_replicate_const)

section \<open>The argument check of \<^verbatim>\<open>Solver.solve\<close>\<close>

text \<open>
  Claim C10. A \<^verbatim>\<open>Solver\<close> built with \<^verbatim>\<open>compute_sens=True\<close> whose \<^verbatim>\<open>solve\<close> is called
  with \<^verbatim>\<open>sens0\<close> or \<^verbatim>\<open>sens_out\<close> equal to \<^verbatim>\<open>None\<close> raises \<^verbatim>\<open>ValueError\<close>, and the
  solver and the arrays passed in are what they were before the call: no buffer was
  written and no engine call was made (the list of calls is part of the solver).
\<close>

theorem solve_requires_sens_arguments:
  assumes "compute_sens s" and "sens0 = None \<or> sens_out = None"
  shows "\<exists>msg. solve B s t0 tvals y0 y_out sens0 sens_out
           = Some (Some (ValueError msg), (s, y_out, sens_out))"
  using assms by (simp add: solve_def)

text \<open>Claim C10, on the example engine, with \<^verbatim>\<open>sens0=None\<close>.\<close>

theorem solve_requires_sens_arguments_witness:
  "compute_sens (demo_solver [] True) \<and>
   (\<exists>msg. solve scripted_engine (demo_solver [] True) (Num 0) [Num 0, Num 1] [Num 5]
             [[Num 9], [Num 9]] None (Some [[[Num 8]], [[Num 8]]])
           = Some (Some (ValueError msg),
                   (demo_solver [] True, [[Num 9], [Num 9]], Some [[[Num 8]], [[Num 8]]])))"
proof -
  have c: "compute_sens (demo_solver [] True)" by (simp add: demo_solver_def)
  show ?thesis
    using c solve_requires_sens_arguments [OF c, of None] by simp
qed

section \<open>Tolerances\<close>

text \<open>
  Claim C7, as the code has it. With an engine that accepts what it is given, and
  each of \<^verbatim>\<open>atol\<close> and \<^verbatim>\<open>rtol\<close> a scalar or a vector: \<^verbatim>\<open>Solver._set_tolerances\<close>
  makes one engine call, returns and stores both tolerances, in all four combinations;
  \<^verbatim>\<open>AdjointSolver._set_tolerances\<close> does the same when \<^verbatim>\<open>rtol\<close> is a scalar, and raises
  \<^verbatim>\<open>ValueError('Invalid tolerance.')\<close> without touching the solver when \<^verbatim>\<open>rtol\<close> is a
  vector.
\<close>

theorem tolerance_combinations:
  assumes "accepts_tolerances B" and "ndim a \<le> 1" and "ndim r \<le> 1"
  shows "(\<exists>e ev. Solver_set_tolerances B a r s
            = (None, s\<lparr>ode := e, calls := calls s @ [ev], atol := Some a, rtol := Some r\<rparr>)) \<and>
         (ndim r = 0 \<longrightarrow>
            (\<exists>e ev. AdjointSolver_set_tolerances B a r s
               = (None, s\<lparr>ode := e, calls := calls s @ [ev], atol := Some a, rtol := Some r\<rparr>))) \<and>
         (ndim r = 1 \<longrightarrow>
            AdjointSolver_set_tolerances B a r s = (Some (ValueError ''Invalid tolerance.''), s))"
proof -
  have ok: "\<And>e x y ev. checked B ev (CVodeSStolerances B e x y) s
                = (None, s\<lparr>ode := snd (CVodeSStolerances B e x y), calls := calls s @ [ev]\<rparr>)"
           "\<And>e x y ev. checked B ev (CVodeSVtolerances B e x y) s
                = (None, s\<lparr>ode := snd (CVodeSVtolerances B e x y), calls := calls s @ [ev]\<rparr>)"
           "\<And>e x y ev. checked B ev (CVodeVStolerances B e x y) s
                = (None, s\<lparr>ode := snd (CVodeVStolerances B e x y), calls := calls s @ [ev]\<rparr>)"
           "\<And>e x y ev. checked B ev (CVodeVVtolerances B e x y) s
                = (None, s\<lparr>ode := snd (CVodeVVtolerances B e x y), calls := calls s @ [ev]\<rparr>)"
    using assms(1) by (simp_all add: accepts_tolerances_def checked_pass)
  show ?thesis
    using assms(2,3)
    by (cases a; cases r)
       (auto simp: Solver_set_tolerances_def AdjointSolver_set_tolerances_def ok)
qed

text \<open>
  Claim C7, on the example engine: a vector \<^verbatim>\<open>atol\<close> with a scalar \<^verbatim>\<open>rtol\<close> is
  accepted by both classes.
\<close>

theorem tolerance_combinations_witness:
  "accepts_tolerances scripted_engine \<and> ndim (Vector [Num 1]) \<le> 1 \<and> ndim (Scalar (Num 1)) \<le> 1 \<and>
   fst (Solver_set_tolerances scripted_engine (Vector [Num 1]) (Scalar (Num 1)) (demo_solver [] False)) = None \<and>
   fst (AdjointSolver_set_tolerances scripted_engine (Vector [Num 1]) (Scalar (Num 1)) (demo_adjoint [])) = None"
proof -
  have a: "accepts_tolerances scripted_engine"
    by (simp add: accepts_tolerances_def scripted_engine_def)
  have n: "ndim (Vector [Num 1]) \<le> 1" "ndim (Scalar (Num 1)) \<le> 1" by simp_all
  from tolerance_combinations [OF a n, of "demo_solver [] False"]
       tolerance_combinations [OF a n, of "demo_adjoint []"] a
  show ?thesis by auto
qed

text \<open>
  Claim C7 as stated fails: \<^verbatim>\<open>AdjointSolver._set_tolerances\<close> rejects a vector
  \<^verbatim>\<open>rtol\<close>, with a scalar \<^verbatim>\<open>atol\<close> and with a vector \<^verbatim>\<open>atol\<close>, on an engine that
  would accept both.
\<close>

theorem adjoint_vector_rtol_counterexample:
  "AdjointSolver_set_tolerances scripted_engine (Scalar (Num 1)) (Vector [Num 1]) (demo_adjoint [])
     = (Some (ValueError ''Invalid tolerance.''), demo_adjoint []) \<and>
   AdjointSolver_set_tolerances scripted_engine (Vector [Num 1]) (Vector [Num 1]) (demo_adjoint [])
     = (Some (ValueError ''Invalid tolerance.''), demo_adjoint [])"
  by (simp add: AdjointSolver_set_tolerances_def)

section \<open>The forward stepping loops\<close>

lemma step_loop_retry:
  "fst (call_CVode B t s) = CV_TOO_MUCH_WORK B \<Longrightarrow>
   step_loop B t s = step_loop B t (snd (call_CVode B t s))"
  by (subst step_loop.simps, cases "call_CVode B t s") simp

lemma step_loop_fatal:
  "fst (call_CVode B t s) \<noteq> CV_TOO_MUCH_WORK B \<Longrightarrow> fst (call_CVode B t s) \<noteq> 0 \<Longrightarrow>
   ERRORS B (fst (call_CVode B t s)) = Some name \<Longrightarrow>
   step_loop B t s
     = Some (Some (SolverError (BadReturnCode name (fst (call_CVode B t s)))), snd (call_CVode B t s))"
  by (subst step_loop.simps, cases "call_CVode B t s") simp


lemma after_CVode_Suc: "after_CVode B t (Suc k) s = snd (call_CVode B t (after_CVode B t k s))"
  by (simp add: after_CVode_def)

lemma step_loop_busy:
  "(\<forall>k<n. fst (call_CVode B t (after_CVode B t k s)) = CV_TOO_MUCH_WORK B) \<Longrightarrow>
   step_loop B t s = step_loop B t (after_CVode B t n s)"
proof (induction n)
  case 0
  show ?case by (simp add: after_CVode_def)
next
  case (Suc n)
  then have "step_loop B t s = step_loop B t (after_CVode B t n s)" by simp
  also have "\<dots> = step_loop B t (snd (call_CVode B t (after_CVode B t n s)))"
    using Suc.prems by (intro step_loop_retry) simp
  finally show ?case by (simp add: after_CVode_Suc)
qed

lemma calls_call_CVode: "calls (snd (call_CVode B t s)) = calls s @ [Step t]"
  by (simp add: call_CVode_def split: prod.splits)

lemma calls_after_CVode: "calls (after_CVode B t n s) = calls s @ replicate n (Step t)"
  by (induction n) (simp_all add: after_CVode_Suc calls_call_CVode replicate_append_same, simp add: after_CVode_def)

lemma step_loop_error_aux:
  assumes "step_loop B t s = Some y"
  shows "fst y \<noteq> None \<longrightarrow>
     (\<exists>r. r \<noteq> CV_TOO_MUCH_WORK B \<and> r \<noteq> 0 \<and>
          fst y = Some (case ERRORS B r of None \<Rightarrow> KeyError r
                        | Some name \<Rightarrow> SolverError (BadReturnCode name r)))"
proof (rule step_loop.raw_induct [where P = "\<lambda>B t s y. fst y \<noteq> None \<longrightarrow>
     (\<exists>r. r \<noteq> CV_TOO_MUCH_WORK B \<and> r \<noteq> 0 \<and>
          fst y = Some (case ERRORS B r of None \<Rightarrow> KeyError r
                        | Some name \<Rightarrow> SolverError (BadReturnCode name r)))", OF _ assms])
  fix f :: "'a basic \<Rightarrow> double \<Rightarrow> 'a Solver \<Rightarrow> 'a Solver outcome option" and B t s y
  assume IH: "\<And>B t s y. f B t s = Some y \<Longrightarrow> fst y \<noteq> None \<longrightarrow>
     (\<exists>r. r \<noteq> CV_TOO_MUCH_WORK B \<and> r \<noteq> 0 \<and>
          fst y = Some (case ERRORS B r of None \<Rightarrow> KeyError r
                        | Some name \<Rightarrow> SolverError (BadReturnCode name r)))"
    and eq: "(case call_CVode B t s of
        (retval, s') \<Rightarrow>
          if retval \<noteq> CV_TOO_MUCH_WORK B \<and> retval \<noteq> 0 then
            (case ERRORS B retval of
               None \<Rightarrow> Some (Some (KeyError retval), s')
             | Some name \<Rightarrow> Some (Some (SolverError (BadReturnCode name retval)), s'))
          else if retval = CV_TOO_MUCH_WORK B then f B t s'
          else Some (None, s')) = Some y"
  obtain retval s' where c: "call_CVode B t s = (retval, s')" by (cases "call_CVode B t s")
  show "fst y \<noteq> None \<longrightarrow>
     (\<exists>r. r \<noteq> CV_TOO_MUCH_WORK B \<and> r \<noteq> 0 \<and>
          fst y = Some (case ERRORS B r of None \<Rightarrow> KeyError r
                        | Some name \<Rightarrow> SolverError (BadReturnCode name r)))"
  proof (cases "retval \<noteq> CV_TOO_MUCH_WORK B \<and> retval \<noteq> 0")
    case True
    with eq c have "fst y = Some (case ERRORS B retval of None \<Rightarrow> KeyError retval
                        | Some name \<Rightarrow> SolverError (BadReturnCode name retval))"
      by (auto split: option.splits)
    with True show ?thesis by blast
  next
    case False
    show ?thesis
    proof (cases "retval = CV_TOO_MUCH_WORK B")
      case True
      with eq c False have "f B t s' = Some y" by simp
      from IH [OF this] show ?thesis .
    next
      case False
      with eq c \<open>\<not> (retval \<noteq> CV_TOO_MUCH_WORK B \<and> retval \<noteq> 0)\<close> have "y = (None, s')" by simp
      then show ?thesis by simp
    qed
  qed
qed

lemma after_CVode_shift: "after_CVode B t k (snd (call_CVode B t s)) = after_CVode B t (Suc k) s"
  by (simp add: after_CVode_def funpow_Suc_right del: funpow.simps)

lemma step_loop_returns_aux:
  assumes "step_loop B t s = Some y"
  shows "\<exists>k. fst (call_CVode B t (after_CVode B t k s)) \<noteq> CV_TOO_MUCH_WORK B"
proof (rule step_loop.raw_induct [where P = "\<lambda>B t s y.
     \<exists>k. fst (call_CVode B t (after_CVode B t k s)) \<noteq> CV_TOO_MUCH_WORK B", OF _ assms])
  fix f :: "'a basic \<Rightarrow> double \<Rightarrow> 'a Solver \<Rightarrow> 'a Solver outcome option" and B t s y
  assume IH: "\<And>B t s y. f B t s = Some y \<Longrightarrow>
     \<exists>k. fst (call_CVode B t (after_CVode B t k s)) \<noteq> CV_TOO_MUCH_WORK B"
    and eq: "(case call_CVode B t s of
        (retval, s') \<Rightarrow>
          if retval \<noteq> CV_TOO_MUCH_WORK B \<and> retval \<noteq> 0 then
            (case ERRORS B retval of
               None \<Rightarrow> Some (Some (KeyError retval), s')
             | Some name \<Rightarrow> Some (Some (SolverError (BadReturnCode name retval)), s'))
          else if retval = CV_TOO_MUCH_WORK B then f B t s'
          else Some (None, s')) = Some y"
  obtain retval s' where c: "call_CVode B t s = (retval, s')" by (cases "call_CVode B t s")
  show "\<exists>k. fst (call_CVode B t (after_CVode B t k s)) \<noteq> CV_TOO_MUCH_WORK B"
  proof (cases "retval = CV_TOO_MUCH_WORK B")
    case True
    with eq c have "f B t s' = Some y" by simp
    from IH [OF this] obtain k
      where "fst (call_CVode B t (after_CVode B t k s')) \<noteq> CV_TOO_MUCH_WORK B" ..
    with c have "fst (call_CVode B t (after_CVode B t (Suc k) s)) \<noteq> CV_TOO_MUCH_WORK B"
      using after_CVode_shift [of B t k s] by simp
    then show ?thesis ..
  next
    case False
    with c have "fst (call_CVode B t (after_CVode B t 0 s)) \<noteq> CV_TOO_MUCH_WORK B"
      by (simp add: after_CVode_def)
    then show ?thesis ..
  qed
qed

lemma step_loop_forever:
  "(\<forall>k. fst (call_CVode B t (after_CVode B t k s)) = CV_TOO_MUCH_WORK B) \<Longrightarrow>
   step_loop B t s = None"
  using step_loop_returns_aux [of B t s] by (cases "step_loop B t s") auto

lemma step_loop_error:
  assumes "step_loop B t s = Some (Some err, s')"
  shows "\<exists>r. r \<noteq> CV_TOO_MUCH_WORK B \<and> r \<noteq> 0 \<and>
             err = (case ERRORS B r of None \<Rightarrow> KeyError r
                    | Some name \<Rightarrow> SolverError (BadReturnCode name r))"
  using step_loop_error_aux [OF assms] by simp

lemma stepF_loop_retry:
  "fst (call_CVodeF B t s) = CV_TOO_MUCH_WORK B \<Longrightarrow>
   stepF_loop B t s = stepF_loop B t (snd (call_CVodeF B t s))"
  by (subst stepF_loop.simps, cases "call_CVodeF B t s") simp

lemma stepF_loop_fatal:
  "fst (call_CVodeF B t s) \<noteq> CV_TOO_MUCH_WORK B \<Longrightarrow> fst (call_CVodeF B t s) \<noteq> 0 \<Longrightarrow>
   ERRORS B (fst (call_CVodeF B t s)) = Some name \<Longrightarrow>
   stepF_loop B t s
     = Some (Some (SolverError (BadReturnCode name (fst (call_CVodeF B t s)))), snd (call_CVodeF B t s))"
  by (subst stepF_loop.simps, cases "call_CVodeF B t s") simp

lemma stepF_loop_success:
  "fst (call_CVodeF B t s) = 0 \<Longrightarrow> CV_TOO_MUCH_WORK B \<noteq> 0 \<Longrightarrow>
   stepF_loop B t s = Some (None, snd (call_CVodeF B t s))"
  by (subst stepF_loop.simps, cases "call_CVodeF B t s") simp

lemma after_CVodeF_Suc: "after_CVodeF B t (Suc k) s = snd (call_CVodeF B t (after_CVodeF B t k s))"
  by (simp add: after_CVodeF_def)

lemma stepF_loop_busy:
  "(\<forall>k<n. fst (call_CVodeF B t (after_CVodeF B t k s)) = CV_TOO_MUCH_WORK B) \<Longrightarrow>
   stepF_loop B t s = stepF_loop B t (after_CVodeF B t n s)"
proof (induction n)
  case 0
  show ?case by (simp add: after_CVodeF_def)
next
  case (Suc n)
  then have "stepF_loop B t s = stepF_loop B t (after_CVodeF B t n s)" by simp
  also have "\<dots> = stepF_loop B t (snd (call_CVodeF B t (after_CVodeF B t n s)))"
    using Suc.prems by (intro stepF_loop_retry) simp
  finally show ?case by (simp add: after_CVodeF_Suc)
qed

lemma calls_call_CVodeF: "calls (snd (call_CVodeF B t s)) = calls s @ [StepF t]"
  by (simp add: call_CVodeF_def split: prod.splits)

lemma calls_after_CVodeF: "calls (after_CVodeF B t n s) = calls s @ replicate n (StepF t)"
  by (induction n) (simp_all add: after_CVodeF_Suc calls_call_CVodeF replicate_append_same, simp add: after_CVodeF_def)

lemma stepF_loop_error_aux:
  assumes "stepF_loop B t s = Some y"
  shows "fst y \<noteq> None \<longrightarrow>
     (\<exists>r. r \<noteq> CV_TOO_MUCH_WORK B \<and> r \<noteq> 0 \<and>
          fst y = Some (case ERRORS B r of None \<Rightarrow> KeyError r
                        | Some name \<Rightarrow> SolverError (BadReturnCode name r)))"
proof (rule stepF_loop.raw_induct [where P = "\<lambda>B t s y. fst y \<noteq> None \<longrightarrow>
     (\<exists>r. r \<noteq> CV_TOO_MUCH_WORK B \<and> r \<noteq> 0 \<and>
          fst y = Some (case ERRORS B r of None \<Rightarrow> KeyError r
                        | Some name \<Rightarrow> SolverError (BadReturnCode name r)))", OF _ assms])
  fix f :: "'a basic \<Rightarrow> double \<Rightarrow> 'a AdjointSolver \<Rightarrow> 'a AdjointSolver outcome option" and B t s y
  assume IH: "\<And>B t s y. f B t s = Some y \<Longrightarrow> fst y \<noteq> None \<longrightarrow>
     (\<exists>r. r \<noteq> CV_TOO_MUCH_WORK B \<and> r \<noteq> 0 \<and>
          fst y = Some (case ERRORS B r of None \<Rightarrow> KeyError r
                        | Some name \<Rightarrow> SolverError (BadReturnCode name r)))"
    and eq: "(case call_CVodeF B t s of
        (retval, s') \<Rightarrow>
          if retval \<noteq> CV_TOO_MUCH_WORK B \<and> retval \<noteq> 0 then
            (case ERRORS B retval of
               None \<Rightarrow> Some (Some (KeyError retval), s')
             | Some name \<Rightarrow> Some (Some (SolverError (BadReturnCode name retval)), s'))
          else if retval = CV_TOO_MUCH_WORK B then f B t s'
          else Some (None, s')) = Some y"
  obtain retval s' where c: "call_CVodeF B t s = (retval, s')" by (cases "call_CVodeF B t s")
  show "fst y \<noteq> None \<longrightarrow>
     (\<exists>r. r \<noteq> CV_TOO_MUCH_WORK B \<and> r \<noteq> 0 \<and>
          fst y = Some (case ERRORS B r of None \<Rightarrow> KeyError r
                        | Some name \<Rightarrow> SolverError (BadReturnCode name r)))"
  proof (cases "retval \<noteq> CV_TOO_MUCH_WORK B \<and> retval \<noteq> 0")
    case True
    with eq c have "fst y = Some (case ERRORS B retval of None \<Rightarrow> KeyError retval
                        | Some name \<Rightarrow> SolverError (BadReturnCode name retval))"
      by (auto split: option.splits)
    with True show ?thesis by blast
  next
    case False
    show ?thesis
    proof (cases "retval = CV_TOO_MUCH_WORK B")
      case True
      with eq c False have "f B t s' = Some y" by simp
      from IH [OF this] show ?thesis .
    next
      case False
      with eq c \<open>\<not> (retval \<noteq> CV_TOO_MUCH_WORK B \<and> retval \<noteq> 0)\<close> have "y = (None, s')" by simp
      then show ?thesis by simp
    qed
  qed
qed

lemma after_CVodeF_shift: "after_CVodeF B t k (snd (call_CVodeF B t s)) = after_CVodeF B t (Suc k) s"
  by (simp add: after_CVodeF_def funpow_Suc_right del: funpow.simps)

lemma stepF_loop_returns_aux:
  assumes "stepF_loop B t s = Some y"
  shows "\<exists>k. fst (call_CVodeF B t (after_CVodeF B t k s)) \<noteq> CV_TOO_MUCH_WORK B"
proof (rule stepF_loop.raw_induct [where P = "\<lambda>B t s y.
     \<exists>k. fst (call_CVodeF B t (after_CVodeF B t k s)) \<noteq> CV_TOO_MUCH_WORK B", OF _ assms])
  fix f :: "'a basic \<Rightarrow> double \<Rightarrow> 'a AdjointSolver \<Rightarrow> 'a AdjointSolver outcome option" and B t s y
  assume IH: "\<And>B t s y. f B t s = Some y \<Longrightarrow>
     \<exists>k. fst (call_CVodeF B t (after_CVodeF B t k s)) \<noteq> CV_TOO_MUCH_WORK B"
    and eq: "(case call_CVodeF B t s of
        (retval, s') \<Rightarrow>
          if retval \<noteq> CV_TOO_MUCH_WORK B \<and> retval \<noteq> 0 then
            (case ERRORS B retval of
               None \<Rightarrow> Some (Some (KeyError retval), s')
             | Some name \<Rightarrow> Some (Some (SolverError (BadReturnCode name retval)), s'))
          else if retval = CV_TOO_MUCH_WORK B then f B t s'
          else Some (None, s')) = Some y"
  obtain retval s' where c: "call_CVodeF B t s = (retval, s')" by (cases "call_CVodeF B t s")
  show "\<exists>k. fst (call_CVodeF B t (after_CVodeF B t k s)) \<noteq> CV_TOO_MUCH_WORK B"
  proof (cases "retval = CV_TOO_MUCH_WORK B")
    case True
    with eq c have "f B t s' = Some y" by simp
    from IH [OF this] obtain k
      where "fst (call_CVodeF B t (after_CVodeF B t k s')) \<noteq> CV_TOO_MUCH_WORK B" ..
    with c have "fst (call_CVodeF B t (after_CVodeF B t (Suc k) s)) \<noteq> CV_TOO_MUCH_WORK B"
      using after_CVodeF_shift [of B t k s] by simp
    then show ?thesis ..
  next
    case False
    with c have "fst (call_CVodeF B t (after_CVodeF B t 0 s)) \<noteq> CV_TOO_MUCH_WORK B"
      by (simp add: after_CVodeF_def)
    then show ?thesis ..
  qed
qed

lemma stepF_loop_forever:
  "(\<forall>k. fst (call_CVodeF B t (after_CVodeF B t k s)) = CV_TOO_MUCH_WORK B) \<Longrightarrow>
   stepF_loop B t s = None"
  using stepF_loop_returns_aux [of B t s] by (cases "stepF_loop B t s") auto

lemma stepF_loop_error:
  assumes "stepF_loop B t s = Some (Some err, s')"
  shows "\<exists>r. r \<noteq> CV_TOO_MUCH_WORK B \<and> r \<noteq> 0 \<and>
             err = (case ERRORS B r of None \<Rightarrow> KeyError r
                    | Some name \<Rightarrow> SolverError (BadReturnCode name r))"
  using stepF_loop_error_aux [OF assms] by simp


lemma solve_loop_abort:
  "\<not> feq t t0 \<Longrightarrow> step_loop B t s = Some (Some e, s') \<Longrightarrow>
   solve_loop B t0 y0 sens0 i (t # ts) (s, Y, T) = Some (Some e, (s', Y, T))"
  by (simp add: solve_body_def)

lemma solve_forward_loop_abort:
  "\<not> feq t t0 \<Longrightarrow> stepF_loop B t s = Some (Some e, s') \<Longrightarrow>
   solve_forward_loop B t0 y0 i (t # ts) (s, Y) = Some (Some e, (s', Y))"
  by (simp add: solve_forward_body_def)

text \<open>
  Claim C6, for the loop of \<^verbatim>\<open>Solver.solve\<close> around \<^verbatim>\<open>CVode\<close> and the loop of
  \<^verbatim>\<open>AdjointSolver.solve_forward\<close> around \<^verbatim>\<open>CVodeF\<close>. While the engine answers
  \<^verbatim>\<open>CV_TOO_MUCH_WORK\<close>, the same request is made again, for any number \<open>n\<close> of
  answers, and the solver has then made \<open>n\<close> identical calls; if the engine answers
  so forever, the loop never returns. A return value that is neither
  \<^verbatim>\<open>CV_TOO_MUCH_WORK\<close> nor 0 and has a name in \<^verbatim>\<open>ERRORS\<close> raises \<^verbatim>\<open>SolverError\<close> with
  that name and that value. Whatever the loop raises comes from such a return value,
  never from \<^verbatim>\<open>CV_TOO_MUCH_WORK\<close>, and ends the loop over the output times at once,
  with the output arrays as they were.
\<close>

theorem forward_retry_discipline:
  fixes s :: "'e Solver" and a :: "'e AdjointSolver"
  shows
   "((\<forall>k<n. fst (call_CVode B t (after_CVode B t k s)) = CV_TOO_MUCH_WORK B) \<longrightarrow>
        step_loop B t s = step_loop B t (after_CVode B t n s) \<and>
        calls (after_CVode B t n s) = calls s @ replicate n (Step t)) \<and>
    ((\<forall>k. fst (call_CVode B t (after_CVode B t k s)) = CV_TOO_MUCH_WORK B) \<longrightarrow>
        step_loop B t s = None) \<and>
    (fst (call_CVode B t s) \<noteq> CV_TOO_MUCH_WORK B \<and> fst (call_CVode B t s) \<noteq> 0 \<and>
     ERRORS B (fst (call_CVode B t s)) = Some name \<longrightarrow>
        step_loop B t s
          = Some (Some (SolverError (BadReturnCode name (fst (call_CVode B t s)))),
                  snd (call_CVode B t s))) \<and>
    (step_loop B t s = Some (Some err, s') \<longrightarrow>
        (\<exists>r. r \<noteq> CV_TOO_MUCH_WORK B \<and> r \<noteq> 0 \<and>
             err = (case ERRORS B r of None \<Rightarrow> KeyError r
                    | Some name \<Rightarrow> SolverError (BadReturnCode name r))) \<and>
        (\<not> feq t t0 \<longrightarrow>
           solve_loop B t0 y0 sens0 i (t # ts) (s, Y, T) = Some (Some err, (s', Y, T)))) \<and>
    ((\<forall>k<n. fst (call_CVodeF B t (after_CVodeF B t k a)) = CV_TOO_MUCH_WORK B) \<longrightarrow>
        stepF_loop B t a = stepF_loop B t (after_CVodeF B t n a) \<and>
        calls (after_CVodeF B t n a) = calls a @ replicate n (StepF t)) \<and>
    ((\<forall>k. fst (call_CVodeF B t (after_CVodeF B t k a)) = CV_TOO_MUCH_WORK B) \<longrightarrow>
        stepF_loop B t a = None) \<and>
    (fst (call_CVodeF B t a) \<noteq> CV_TOO_MUCH_WORK B \<and> fst (call_CVodeF B t a) \<noteq> 0 \<and>
     ERRORS B (fst (call_CVodeF B t a)) = Some name \<longrightarrow>
        stepF_loop B t a
          = Some (Some (SolverError (BadReturnCode name (fst (call_CVodeF B t a)))),
                  snd (call_CVodeF B t a))) \<and>
    (stepF_loop B t a = Some (Some err, a') \<longrightarrow>
        (\<exists>r. r \<noteq> CV_TOO_MUCH_WORK B \<and> r \<noteq> 0 \<and>
             err = (case ERRORS B r of None \<Rightarrow> KeyError r
                    | Some name \<Rightarrow> SolverError (BadReturnCode name r))) \<and>
        (\<not> feq t t0 \<longrightarrow>
           solve_forward_loop B t0 y0 i (t # ts) (a, Y) = Some (Some err, (a', Y))))"
  using step_loop_busy [of n B t s] calls_after_CVode [of B t n s] step_loop_fatal [of B t s name]
    step_loop_forever [of B t s] stepF_loop_forever [of B t a]
    step_loop_error [of B t s err s'] solve_loop_abort [of t t0 B s err s']
    stepF_loop_busy [of n B t a] calls_after_CVodeF [of B t n a] stepF_loop_fatal [of B t a name]
    stepF_loop_error [of B t a err a'] solve_forward_loop_abort [of t t0 B a err a']
  by simp

text \<open>The definitions an example unfolds.\<close>

lemmas example_defs =
  scripted_engine_def next_code_def demo_solver_def demo_adjoint_def fill_def
  call_CVode_def call_CVodeF_def call_CVodeB_def after_CVode_def after_CVodeF_def after_CVodeB_def

text \<open>
  Claim C6, on the example engine: two answers \<^verbatim>\<open>CV_TOO_MUCH_WORK\<close>, then
  \<^verbatim>\<open>CV_CONV_FAILURE\<close>; three identical calls and a \<^verbatim>\<open>SolverError\<close>.
\<close>

theorem forward_retry_discipline_witness:
  "fst (call_CVode scripted_engine (Num 1)
          (after_CVode scripted_engine (Num 1) 0 (demo_solver [- 1, - 1, - 4] False))) = - 1 \<and>
   fst (call_CVode scripted_engine (Num 1)
          (after_CVode scripted_engine (Num 1) 1 (demo_solver [- 1, - 1, - 4] False))) = - 1 \<and>
   fst (call_CVode scripted_engine (Num 1)
          (after_CVode scripted_engine (Num 1) 2 (demo_solver [- 1, - 1, - 4] False))) = - 4 \<and>
   (\<exists>s'. step_loop scripted_engine (Num 1) (demo_solver [- 1, - 1, - 4] False)
            = Some (Some (SolverError (BadReturnCode ''CV_CONV_FAILURE'' (- 4))), s') \<and>
          calls s' = [Step (Num 1), Step (Num 1), Step (Num 1)])"
proof -
  let ?B = scripted_engine and ?t = "Num 1" and ?s = "demo_solver [- 1, - 1, - 4] False"
  have c0: "fst (call_CVode ?B ?t (after_CVode ?B ?t 0 ?s)) = - 1"
    by (simp add: example_defs)
  have c1: "fst (call_CVode ?B ?t (after_CVode ?B ?t 1 ?s)) = - 1"
    by (simp add: example_defs)
  have c2: "fst (call_CVode ?B ?t (after_CVode ?B ?t 2 ?s)) = - 4"
    by (simp add: example_defs eval_nat_numeral)
  have tmw: "CV_TOO_MUCH_WORK ?B = - 1" and err: "ERRORS ?B (- 4) = Some ''CV_CONV_FAILURE''"
    by (simp_all add: scripted_engine_def)
  have busy: "\<forall>k<2. fst (call_CVode ?B ?t (after_CVode ?B ?t k ?s)) = CV_TOO_MUCH_WORK ?B"
    using c0 c1 tmw by (simp add: less_2_cases_iff)
  from forward_retry_discipline [of 2 ?B ?t ?s] busy
  have 1: "step_loop ?B ?t ?s = step_loop ?B ?t (after_CVode ?B ?t 2 ?s)"
    and 2: "calls (after_CVode ?B ?t 2 ?s) = calls ?s @ replicate 2 (Step ?t)"
    by blast+
  have f: "fst (call_CVode ?B ?t (after_CVode ?B ?t 2 ?s)) \<noteq> CV_TOO_MUCH_WORK ?B \<and>
           fst (call_CVode ?B ?t (after_CVode ?B ?t 2 ?s)) \<noteq> 0 \<and>
           ERRORS ?B (fst (call_CVode ?B ?t (after_CVode ?B ?t 2 ?s))) = Some ''CV_CONV_FAILURE''"
    using c2 tmw err by simp
  from forward_retry_discipline [of 0 ?B ?t "after_CVode ?B ?t 2 ?s" "''CV_CONV_FAILURE''"] f
  have "step_loop ?B ?t (after_CVode ?B ?t 2 ?s)
          = Some (Some (SolverError (BadReturnCode ''CV_CONV_FAILURE''
                          (fst (call_CVode ?B ?t (after_CVode ?B ?t 2 ?s))))),
                  snd (call_CVode ?B ?t (after_CVode ?B ?t 2 ?s)))"
    by blast
  then have 3: "step_loop ?B ?t (after_CVode ?B ?t 2 ?s)
             = Some (Some (SolverError (BadReturnCode ''CV_CONV_FAILURE'' (- 4))),
                     snd (call_CVode ?B ?t (after_CVode ?B ?t 2 ?s)))"
    by (simp only: c2)
  have 4: "calls (snd (call_CVode ?B ?t (after_CVode ?B ?t 2 ?s))) = [Step ?t, Step ?t, Step ?t]"
    using 2 by (simp add: calls_call_CVode demo_solver_def eval_nat_numeral)
  from c0 c1 c2 1 3 4 show ?thesis by simp
qed

section \<open>The backward pass\<close>








lemma call_CVodeB_calls: "calls (snd (call_CVodeB B t s)) = calls s @ [StepB t]"
  by (simp add: call_CVodeB_def split: prod.splits)



lemma read_back_outs:
  "grad_out (snd (snd (read_back B t (s, f)))) = grad_out f \<and>
   lamda_out (snd (snd (read_back B t (s, f)))) = lamda_out f"
  by (simp add: read_back_def Let_def split: prod.splits option.splits)


lemma inject_outs:
  "grad_out (snd (snd (inject i g st))) = grad_out (snd st) \<and>
   lamda_out (snd (snd (inject i g st))) = lamda_out (snd st)"
  by (cases st) (simp add: inject_def Let_def split: prod.splits option.splits)


lemma backward_interval_outs:
  "grad_out (snd (snd (backward_interval B lo up n (s, f)))) = grad_out f \<and>
   lamda_out (snd (snd (backward_interval B lo up n (s, f)))) = lamda_out f"
  using read_back_outs [of B lo _ f]
  by (auto simp: backward_interval_def split: prod.splits option.splits)


lemma and_then_snd:
  "snd (and_then r f) = (case fst r of None \<Rightarrow> snd (f (snd r)) | Some e \<Rightarrow> snd r)"
  by (cases r) (simp add: and_then_def split: option.splits)


lemma backward_body_outs:
  "grad_out (snd (snd (backward_body B n i x st))) = grad_out (snd st) \<and>
   lamda_out (snd (snd (backward_body B n i x st))) = lamda_out (snd st)"
proof -
  obtain lo up grad where x: "x = ((lo, up), grad)" by (metis prod.collapse)
  define r where "r = (if flt lo up then backward_interval B lo up n st else (None, st))"
  define g where "g = (\<lambda>st :: 'a backward_state. case grad of None \<Rightarrow> (None, st) | Some v \<Rightarrow> inject i v st)"
  have 1: "grad_out (snd (snd r)) = grad_out (snd st) \<and> lamda_out (snd (snd r)) = lamda_out (snd st)"
    using backward_interval_outs [of B lo up n "fst st" "snd st"] by (simp add: r_def)
  have 2: "grad_out (snd (snd (g st'))) = grad_out (snd st') \<and>
           lamda_out (snd (snd (g st'))) = lamda_out (snd st')" for st'
    using inject_outs [of _ _ st'] by (simp add: g_def split: option.splits)
  have "snd (backward_body B n i x st) = (case fst r of None \<Rightarrow> snd (g (snd r)) | Some e \<Rightarrow> snd r)"
    by (simp add: r_def g_def x backward_body_def and_then_snd cong: option.case_cong)
  with 1 2 [of "snd r"] show ?thesis
    by (auto split: option.splits)
qed


lemma backward_loop_outs:
  "grad_out (snd (snd (backward_loop B n i xs st))) = grad_out (snd st) \<and>
   lamda_out (snd (snd (backward_loop B n i xs st))) = lamda_out (snd st)"
proof (induction xs arbitrary: i st)
  case Nil
  show ?case by simp
next
  case (Cons x xs)
  obtain e st' where b: "backward_body B n i x st = (e, st')" by (cases "backward_body B n i x st")
  with backward_body_outs [of B n i x st]
  have q: "grad_out (snd st') = grad_out (snd st) \<and> lamda_out (snd st') = lamda_out (snd st)"
    by simp
  show ?case
  proof (cases e)
    case None
    with b q Cons [where i = "Suc i" and st = st'] show ?thesis by simp
  next
    case (Some a)
    with b q show ?thesis by simp
  qed
qed

lemma backward_loop_append:
  "backward_loop B n i (pre @ rest) st =
     (case backward_loop B n i pre st of
        (Some e, st') \<Rightarrow> (Some e, st')
      | (None, st') \<Rightarrow> backward_loop B n (i + length pre) rest st')"
  by (induction pre arbitrary: i st) (auto split: prod.splits option.splits)

lemma after_CVodeB_Suc: "after_CVodeB B t (Suc k) s = snd (call_CVodeB B t (after_CVodeB B t k s))"
  by (simp add: after_CVodeB_def)

lemma after_CVodeB_shift: "after_CVodeB B t k (snd (call_CVodeB B t s)) = after_CVodeB B t (Suc k) s"
  by (simp add: after_CVodeB_def funpow_Suc_right del: funpow.simps)

lemma retry_loop_exhausted:
  "CV_TOO_MUCH_WORK B \<noteq> 0 \<Longrightarrow>
   (\<forall>k<n. fst (call_CVodeB B lo (after_CVodeB B lo k s)) = CV_TOO_MUCH_WORK B) \<Longrightarrow>
   retry_loop B lo up n s = (Some (SolverError (TooManyRetries up lo)), after_CVodeB B lo n s)"
proof (induction n arbitrary: s)
  case 0
  show ?case by (simp add: after_CVodeB_def)
next
  case (Suc n)
  obtain r s' where c: "call_CVodeB B lo s = (r, s')" by (cases "call_CVodeB B lo s")
  from Suc.prems(2) have "fst (call_CVodeB B lo (after_CVodeB B lo 0 s)) = CV_TOO_MUCH_WORK B"
    by blast
  with c have r: "r = CV_TOO_MUCH_WORK B" by (simp add: after_CVodeB_def)
  have "\<forall>k<n. fst (call_CVodeB B lo (after_CVodeB B lo k s')) = CV_TOO_MUCH_WORK B"
  proof (intro allI impI)
    fix k assume "k < n"
    then have "fst (call_CVodeB B lo (after_CVodeB B lo (Suc k) s)) = CV_TOO_MUCH_WORK B"
      using Suc.prems(2) by simp
    then show "fst (call_CVodeB B lo (after_CVodeB B lo k s')) = CV_TOO_MUCH_WORK B"
      using after_CVodeB_shift [of B lo k s] c by simp
  qed
  from Suc.IH [OF Suc.prems(1) this]
  have "retry_loop B lo up n s' = (Some (SolverError (TooManyRetries up lo)), after_CVodeB B lo n s')" .
  moreover have "after_CVodeB B lo n s' = after_CVodeB B lo (Suc n) s"
    using after_CVodeB_shift [of B lo n s] c by simp
  ultimately show ?case using c r Suc.prems(1) by simp
qed










lemma calls_after_CVodeB: "calls (after_CVodeB B t n s) = calls s @ replicate n (StepB t)"
  by (induction n) (simp_all add: after_CVodeB_Suc call_CVodeB_calls replicate_append_same, simp add: after_CVodeB_def)

lemma retry_loop_fatal_after:
  "CV_TOO_MUCH_WORK B \<noteq> 0 \<Longrightarrow>
   (\<forall>j<k. fst (call_CVodeB B lo (after_CVodeB B lo j s)) = CV_TOO_MUCH_WORK B) \<Longrightarrow>
   k < n \<Longrightarrow>
   fst (call_CVodeB B lo (after_CVodeB B lo k s)) = code \<Longrightarrow>
   code \<noteq> 0 \<Longrightarrow> code \<noteq> CV_TOO_MUCH_WORK B \<Longrightarrow> ERRORS B code = Some name \<Longrightarrow>
   retry_loop B lo up n s
     = (Some (SolverError (FailedBetween up lo name code)), after_CVodeB B lo (Suc k) s)"
proof (induction k arbitrary: n s)
  case 0
  from 0(3) obtain m where n: "n = Suc m" by (cases n) auto
  obtain r s' where c: "call_CVodeB B lo s = (r, s')" by (cases "call_CVodeB B lo s")
  with 0(4) have r: "r = code" by (simp add: after_CVodeB_def)
  show ?case using c r 0 by (simp add: n after_CVodeB_def)
next
  case (Suc k)
  from Suc.prems(3) obtain m where n: "n = Suc m" and m: "k < m" by (cases n) auto
  obtain r s' where c: "call_CVodeB B lo s = (r, s')" by (cases "call_CVodeB B lo s")
  from Suc.prems(2) have "fst (call_CVodeB B lo (after_CVodeB B lo 0 s)) = CV_TOO_MUCH_WORK B"
    by blast
  with c have r: "r = CV_TOO_MUCH_WORK B" by (simp add: after_CVodeB_def)
  have sh: "after_CVodeB B lo j s' = after_CVodeB B lo (Suc j) s" for j
    using after_CVodeB_shift [of B lo j s] c by simp
  have busy: "\<forall>j<k. fst (call_CVodeB B lo (after_CVodeB B lo j s')) = CV_TOO_MUCH_WORK B"
    using Suc.prems(2) by (simp add: sh)
  have last: "fst (call_CVodeB B lo (after_CVodeB B lo k s')) = code"
    using Suc.prems(4) by (simp add: sh)
  from Suc.IH [OF Suc.prems(1) busy m last Suc.prems(5) Suc.prems(6) Suc.prems(7)]
  have "retry_loop B lo up m s'
          = (Some (SolverError (FailedBetween up lo name code)), after_CVodeB B lo (Suc k) s')" .
  then show ?case using c r Suc.prems(1) by (simp add: n sh)
qed

text \<open>
  Claim C3. The list of sub-intervals is cut at a sub-interval with
  \<^verbatim>\<open>t_lower < t_upper\<close>; the ones before it went through without an exception and
  left the solver \<open>s1\<close> and the caller's arrays \<open>f1\<close>, and the two reinitializations
  of this one passed \<^verbatim>\<open>check\<close>. If the engine then answers \<^verbatim>\<open>CV_TOO_MUCH_WORK\<close> to
  \<^verbatim>\<open>max_retries\<close> requests in a row, \<^verbatim>\<open>solve_backward\<close> raises the \<^verbatim>\<open>SolverError\<close>
  "Too many solver retries between time t_upper and t_lower", and \<^verbatim>\<open>CVodeB\<close> has been
  asked exactly \<^verbatim>\<open>max_retries\<close> times for this sub-interval. If instead, after
  \<open>k < max_retries\<close> such answers, the engine answers a value that is neither 0 nor
  \<^verbatim>\<open>CV_TOO_MUCH_WORK\<close> and has a name in \<^verbatim>\<open>ERRORS\<close>, \<^verbatim>\<open>solve_backward\<close> raises the
  other \<^verbatim>\<open>SolverError\<close>, "Solving ode failed between time t_upper and t_lower: name
  (value)", after \<open>k + 1\<close> requests (\<open>k = 0\<close> is a single fatal step). Either way the
  exception leaves the function with the caller's arrays as the earlier sub-intervals
  left them: \<^verbatim>\<open>grad_out\<close> and \<^verbatim>\<open>lamda_out\<close>, which are written after the loop only, are
  as they were passed in; \<^verbatim>\<open>lamda_all_out\<close> and \<^verbatim>\<open>quad_all_out\<close>, if given, hold the
  rows that the injections of the earlier sub-intervals wrote.
\<close>

theorem too_many_retries:
  assumes tmw: "CV_TOO_MUCH_WORK B \<noteq> 0"
    and split: "intervals_with_grads t_init t_end tvals grads = pre @ ((t_lower, t_upper), g) # post"
    and pre: "backward_loop B (nat max_retries) 0 pre
                (zero_buffers s,
                 \<lparr>time_p = t_init, grad_out = g_out, lamda_out = l_out,
                  lamda_all_out = la, quad_all_out = qa\<rparr>) = (None, (s1, f1))"
    and nondeg: "flt t_lower t_upper"
    and reinit: "reinit_backward B t_upper s1 = (None, s2)"
  shows
   "((\<forall>k<nat max_retries.
        fst (call_CVodeB B t_lower (after_CVodeB B t_lower k s2)) = CV_TOO_MUCH_WORK B) \<longrightarrow>
       solve_backward B s t_init t_end tvals grads g_out l_out la qa max_retries
         = (Some (SolverError (TooManyRetries t_upper t_lower)),
            (after_CVodeB B t_lower (nat max_retries) s2, f1)) \<and>
       calls (after_CVodeB B t_lower (nat max_retries) s2)
         = calls s2 @ replicate (nat max_retries) (StepB t_lower)) \<and>
    (k < nat max_retries \<and>
     (\<forall>j<k. fst (call_CVodeB B t_lower (after_CVodeB B t_lower j s2)) = CV_TOO_MUCH_WORK B) \<and>
     fst (call_CVodeB B t_lower (after_CVodeB B t_lower k s2)) = code \<and>
     code \<noteq> 0 \<and> code \<noteq> CV_TOO_MUCH_WORK B \<and> ERRORS B code = Some name \<longrightarrow>
       solve_backward B s t_init t_end tvals grads g_out l_out la qa max_retries
         = (Some (SolverError (FailedBetween t_upper t_lower name code)),
            (after_CVodeB B t_lower (Suc k) s2, f1)) \<and>
       calls (after_CVodeB B t_lower (Suc k) s2) = calls s2 @ replicate (Suc k) (StepB t_lower) \<and>
       SolverError (FailedBetween t_upper t_lower name code)
         \<noteq> SolverError (TooManyRetries t_upper t_lower)) \<and>
    grad_out f1 = g_out \<and> lamda_out f1 = l_out"
proof -
  let ?n = "nat max_retries"
  let ?f = "\<lparr>time_p = t_init, grad_out = g_out, lamda_out = l_out,
             lamda_all_out = la, quad_all_out = qa\<rparr>"
  have raised: "solve_backward B s t_init t_end tvals grads g_out l_out la qa max_retries
                  = (Some e, (s3, f1))"
    if r: "retry_loop B t_lower t_upper ?n s2 = (Some e, s3)" for e s3
  proof -
    have i: "backward_interval B t_lower t_upper ?n (s1, f1) = (Some e, (s3, f1))"
      by (simp add: backward_interval_def reinit r and_then_def)
    have b: "backward_body B ?n (length pre) ((t_lower, t_upper), g) (s1, f1) = (Some e, (s3, f1))"
      by (simp add: backward_body_def nondeg i and_then_def)
    have l: "backward_loop B ?n 0 (pre @ ((t_lower, t_upper), g) # post) (zero_buffers s, ?f)
               = (Some e, (s3, f1))"
      by (simp add: backward_loop_append pre b)
    show ?thesis by (simp add: solve_backward_def split l and_then_def)
  qed
  have 1: "(\<forall>k<nat max_retries.
        fst (call_CVodeB B t_lower (after_CVodeB B t_lower k s2)) = CV_TOO_MUCH_WORK B) \<longrightarrow>
       solve_backward B s t_init t_end tvals grads g_out l_out la qa max_retries
         = (Some (SolverError (TooManyRetries t_upper t_lower)),
            (after_CVodeB B t_lower (nat max_retries) s2, f1)) \<and>
       calls (after_CVodeB B t_lower (nat max_retries) s2)
         = calls s2 @ replicate (nat max_retries) (StepB t_lower)"
    using raised [OF retry_loop_exhausted [OF tmw]] by (simp add: calls_after_CVodeB)
  have 2: "k < nat max_retries \<and>
     (\<forall>j<k. fst (call_CVodeB B t_lower (after_CVodeB B t_lower j s2)) = CV_TOO_MUCH_WORK B) \<and>
     fst (call_CVodeB B t_lower (after_CVodeB B t_lower k s2)) = code \<and>
     code \<noteq> 0 \<and> code \<noteq> CV_TOO_MUCH_WORK B \<and> ERRORS B code = Some name \<longrightarrow>
       solve_backward B s t_init t_end tvals grads g_out l_out la qa max_retries
         = (Some (SolverError (FailedBetween t_upper t_lower name code)),
            (after_CVodeB B t_lower (Suc k) s2, f1)) \<and>
       calls (after_CVodeB B t_lower (Suc k) s2) = calls s2 @ replicate (Suc k) (StepB t_lower) \<and>
       SolverError (FailedBetween t_upper t_lower name code)
         \<noteq> SolverError (TooManyRetries t_upper t_lower)"
  proof (intro impI)
    assume a: "k < nat max_retries \<and>
     (\<forall>j<k. fst (call_CVodeB B t_lower (after_CVodeB B t_lower j s2)) = CV_TOO_MUCH_WORK B) \<and>
     fst (call_CVodeB B t_lower (after_CVodeB B t_lower k s2)) = code \<and>
     code \<noteq> 0 \<and> code \<noteq> CV_TOO_MUCH_WORK B \<and> ERRORS B code = Some name"
    have "retry_loop B t_lower t_upper ?n s2
            = (Some (SolverError (FailedBetween t_upper t_lower name code)),
               after_CVodeB B t_lower (Suc k) s2)"
      using a by (intro retry_loop_fatal_after [OF tmw]) simp_all
    from raised [OF this] show "solve_backward B s t_init t_end tvals grads g_out l_out la qa max_retries
         = (Some (SolverError (FailedBetween t_upper t_lower name code)),
            (after_CVodeB B t_lower (Suc k) s2, f1)) \<and>
       calls (after_CVodeB B t_lower (Suc k) s2) = calls s2 @ replicate (Suc k) (StepB t_lower) \<and>
       SolverError (FailedBetween t_upper t_lower name code)
         \<noteq> SolverError (TooManyRetries t_upper t_lower)"
      by (simp add: calls_after_CVodeB del: replicate.simps)
  qed
  have 3: "grad_out f1 = g_out \<and> lamda_out f1 = l_out"
    using backward_loop_outs [of B ?n 0 pre "(zero_buffers s, ?f)"] pre by simp
  from 1 2 3 show ?thesis by blast
qed


text \<open>The definitions an example of the backward pass unfolds.\<close>

lemmas backward_defs =
  solve_backward_def backward_body_def backward_interval_def reinit_backward_def read_back_def
  inject_def write_results_def zero_buffers_def intervals_with_grads_def t_intervals_def
  and_then_def checked_def isub_def assign_def broadcast_to_def set_row_def set_row_neg_def Let_def

text \<open>
  Claim C3, on the example engine: three output times, both per-time buffers,
  \<^verbatim>\<open>max_retries=3\<close> and the sub-interval from 2 to 1, first with three answers
  \<^verbatim>\<open>CV_TOO_MUCH_WORK\<close>, then with one followed by \<^verbatim>\<open>CV_CONV_FAILURE\<close>. Row 0 of the
  per-time buffers was written by the injection at time 2.
\<close>

theorem too_many_retries_witness:
  "CV_TOO_MUCH_WORK scripted_engine \<noteq> 0 \<and> flt (Num 1) (Num 2) \<and>
   intervals_with_grads (Num 2) (Num 0) [Num 0, Num 1, Num 2] [[Num 1], [Num 1], [Num 1]]
     = [((Num 2, Num 2), Some [Num 1])] @ ((Num 1, Num 2), Some [Num 1])
         # [((Num 0, Num 1), Some [Num 1]), ((Num 0, Num 0), None)] \<and>
   (\<exists>s'. solve_backward scripted_engine (demo_adjoint [- 1, - 1, - 1]) (Num 2) (Num 0)
            [Num 0, Num 1, Num 2] [[Num 1], [Num 1], [Num 1]] [Num 9] [Num 9]
            (Some [[Num 8], [Num 8], [Num 8]]) (Some [[Num 8], [Num 8], [Num 8]]) 3
          = (Some (SolverError (TooManyRetries (Num 2) (Num 1))),
             (s', \<lparr>time_p = Num 2, grad_out = [Num 9], lamda_out = [Num 9],
                   lamda_all_out = Some [[Num (- 1)], [Num 8], [Num 8]],
                   quad_all_out = Some [[Num 0], [Num 8], [Num 8]]\<rparr>)) \<and>
          calls s' = [Zeroed StateB, Zeroed Quad, Zeroed QuadOut, Injected [Num 1],
                      ReInitB (Num 2) [Num (- 1)], QuadReInitB [Num 0],
                      StepB (Num 1), StepB (Num 1), StepB (Num 1)]) \<and>
   (\<exists>s'. solve_backward scripted_engine (demo_adjoint [- 1, - 4]) (Num 2) (Num 0)
            [Num 0, Num 1, Num 2] [[Num 1], [Num 1], [Num 1]] [Num 9] [Num 9]
            (Some [[Num 8], [Num 8], [Num 8]]) (Some [[Num 8], [Num 8], [Num 8]]) 3
          = (Some (SolverError (FailedBetween (Num 2) (Num 1) ''CV_CONV_FAILURE'' (- 4))),
             (s', \<lparr>time_p = Num 2, grad_out = [Num 9], lamda_out = [Num 9],
                   lamda_all_out = Some [[Num (- 1)], [Num 8], [Num 8]],
                   quad_all_out = Some [[Num 0], [Num 8], [Num 8]]\<rparr>)) \<and>
          calls s' = [Zeroed StateB, Zeroed Quad, Zeroed QuadOut, Injected [Num 1],
                      ReInitB (Num 2) [Num (- 1)], QuadReInitB [Num 0],
                      StepB (Num 1), StepB (Num 1)])"
proof -
  let ?B = scripted_engine
  let ?f = "\<lparr>time_p = Num 2, grad_out = [Num 9], lamda_out = [Num 9],
             lamda_all_out = Some [[Num 8], [Num 8], [Num 8]],
             quad_all_out = Some [[Num 8], [Num 8], [Num 8]]\<rparr>"
  let ?f1 = "\<lparr>time_p = Num 2, grad_out = [Num 9], lamda_out = [Num 9],
              lamda_all_out = Some [[Num (- 1)], [Num 8], [Num 8]],
              quad_all_out = Some [[Num 0], [Num 8], [Num 8]]\<rparr>"
  let ?pre = "[((Num 2, Num 2), Some [Num 1])]"
  let ?post = "[((Num 0, Num 1), Some [Num 1]), ((Num 0, Num 0), None)]"
  let ?l = "\<lambda>script. backward_loop ?B (nat 3) 0 ?pre (zero_buffers (demo_adjoint script), ?f)"
  let ?r = "\<lambda>script. reinit_backward ?B (Num 2) (fst (snd (?l script)))"
  let ?pc = "[Zeroed StateB, Zeroed Quad, Zeroed QuadOut, Injected [Num 1],
              ReInitB (Num 2) [Num (- 1)], QuadReInitB [Num 0]]"
  have tmw: "CV_TOO_MUCH_WORK ?B \<noteq> 0" by (simp add: scripted_engine_def)
  have nondeg: "flt (Num 1) (Num 2)" by simp
  have split: "intervals_with_grads (Num 2) (Num 0) [Num 0, Num 1, Num 2] [[Num 1], [Num 1], [Num 1]]
                 = ?pre @ ((Num 1, Num 2), Some [Num 1]) # ?post"
    by (simp add: intervals_with_grads_def t_intervals_def)
  have l: "fst (?l script) = None \<and> snd (snd (?l script)) = ?f1" for script
    by (simp add: backward_defs example_defs)
  then have pre: "?l script = (None, (fst (snd (?l script)), ?f1))" for script
    by (metis prod.collapse)
  have r: "fst (?r script) = None \<and> calls (snd (?r script)) = ?pc" for script
    by (simp add: backward_defs example_defs)
  then have reinit: "?r script = (None, snd (?r script))" for script
    by (metis prod.collapse)
  have busy: "\<forall>k<nat 3. fst (call_CVodeB ?B (Num 1) (after_CVodeB ?B (Num 1) k (snd (?r [- 1, - 1, - 1]))))
                = CV_TOO_MUCH_WORK ?B"
    by (auto simp: backward_defs example_defs eval_nat_numeral less_Suc_eq)
  have fatal: "1 < nat 3 \<and>
     (\<forall>j<1. fst (call_CVodeB ?B (Num 1) (after_CVodeB ?B (Num 1) j (snd (?r [- 1, - 4]))))
               = CV_TOO_MUCH_WORK ?B) \<and>
     fst (call_CVodeB ?B (Num 1) (after_CVodeB ?B (Num 1) 1 (snd (?r [- 1, - 4])))) = - 4 \<and>
     - 4 \<noteq> (0 :: int) \<and> - 4 \<noteq> CV_TOO_MUCH_WORK ?B \<and> ERRORS ?B (- 4) = Some ''CV_CONV_FAILURE''"
    by (auto simp: backward_defs example_defs eval_nat_numeral less_Suc_eq)
  from too_many_retries
         [OF tmw split pre [of "[- 1, - 1, - 1]"] nondeg reinit [of "[- 1, - 1, - 1]"]] busy
  have 1: "solve_backward ?B (demo_adjoint [- 1, - 1, - 1]) (Num 2) (Num 0)
            [Num 0, Num 1, Num 2] [[Num 1], [Num 1], [Num 1]] [Num 9] [Num 9]
            (Some [[Num 8], [Num 8], [Num 8]]) (Some [[Num 8], [Num 8], [Num 8]]) 3
          = (Some (SolverError (TooManyRetries (Num 2) (Num 1))),
             (after_CVodeB ?B (Num 1) (nat 3) (snd (?r [- 1, - 1, - 1])), ?f1)) \<and>
           calls (after_CVodeB ?B (Num 1) (nat 3) (snd (?r [- 1, - 1, - 1])))
             = calls (snd (?r [- 1, - 1, - 1])) @ replicate (nat 3) (StepB (Num 1))"
    by blast
  from too_many_retries
         [OF tmw split pre [of "[- 1, - 4]"] nondeg reinit [of "[- 1, - 4]"],
          where k = 1 and code = "- 4" and name = "''CV_CONV_FAILURE''"]
       fatal
  have 2: "solve_backward ?B (demo_adjoint [- 1, - 4]) (Num 2) (Num 0)
            [Num 0, Num 1, Num 2] [[Num 1], [Num 1], [Num 1]] [Num 9] [Num 9]
            (Some [[Num 8], [Num 8], [Num 8]]) (Some [[Num 8], [Num 8], [Num 8]]) 3
          = (Some (SolverError (FailedBetween (Num 2) (Num 1) ''CV_CONV_FAILURE'' (- 4))),
             (after_CVodeB ?B (Num 1) (Suc 1) (snd (?r [- 1, - 4])), ?f1)) \<and>
           calls (after_CVodeB ?B (Num 1) (Suc 1) (snd (?r [- 1, - 4])))
             = calls (snd (?r [- 1, - 4])) @ replicate (Suc 1) (StepB (Num 1))"
    by blast
  have c1: "calls (snd (?r [- 1, - 1, - 1])) @ replicate (nat 3) (StepB (Num 1))
              = ?pc @ [StepB (Num 1), StepB (Num 1), StepB (Num 1)]"
    using r [of "[- 1, - 1, - 1]"] by (simp add: eval_nat_numeral)
  have c2: "calls (snd (?r [- 1, - 4])) @ replicate (Suc 1) (StepB (Num 1))
              = ?pc @ [StepB (Num 1), StepB (Num 1)]"
    using r [of "[- 1, - 4]"] by simp
  from tmw nondeg split 1 2 show ?thesis unfolding c1 c2 by simp
qed


section \<open>The adjoint operations\<close>

lemma assign_length: "length (snd (assign dst src)) = length dst"
  by (simp add: assign_def broadcast_to_def fill_def)

lemma set_row_shape: "map length (snd (set_row m i src)) = map length m"
proof (cases "length m \<le> i")
  case True
  then show ?thesis by (simp add: set_row_def)
next
  case False
  obtain x r where a: "assign (m ! i) src = (x, r)" by (cases "assign (m ! i) src")
  with assign_length [of "m ! i" src] have "length r = length (m ! i)" by simp
  with False a show ?thesis
    by (cases x) (simp_all add: set_row_def map_update list_update_same_conv)
qed

lemma set_row_shapeD: "set_row m i src = (x, m') \<Longrightarrow> map length m' = map length m"
  using set_row_shape [of m i src] by simp

lemma solve_forward_body_shape:
  assumes "solve_forward_body B t0 y0 i t (s, Y) = Some (x, (s', Y'))"
  shows "map length Y' = map length Y"
proof (cases "feq t t0")
  case True
  with assms show ?thesis
    by (auto simp: solve_forward_body_def split: prod.splits dest: set_row_shapeD)
next
  case False
  with assms show ?thesis
    by (auto simp: solve_forward_body_def split: prod.splits option.splits dest: set_row_shapeD)
qed

lemma solve_forward_loop_shape:
  "solve_forward_loop B t0 y0 i ts (s, Y) = Some (x, (s', Y')) \<Longrightarrow> map length Y' = map length Y"
proof (induction ts arbitrary: i s Y)
  case Nil
  then show ?case by simp
next
  case (Cons t ts)
  from Cons.prems obtain x1 s1 Y1 where b: "solve_forward_body B t0 y0 i t (s, Y) = Some (x1, (s1, Y1))"
    by (auto split: option.splits)
  from solve_forward_body_shape [OF b] have 1: "map length Y1 = map length Y" .
  show ?case
  proof (cases x1)
    case None
    with Cons.prems b have "solve_forward_loop B t0 y0 (Suc i) ts (s1, Y1) = Some (x, (s', Y'))"
      by simp
    from Cons.IH [OF this] 1 show ?thesis by simp
  next
    case (Some e)
    with Cons.prems b 1 show ?thesis by simp
  qed
qed

lemma solve_forward_shape:
  "solve_forward B s t0 tvals y0 Y = Some (x, (s', Y')) \<Longrightarrow> map length Y' = map length Y"
  by (auto simp: solve_forward_def split: prod.splits option.splits dest: solve_forward_loop_shape)

lemma write_results_lengths:
  "length (grad_out (snd (snd (write_results st)))) = length (grad_out (snd st)) \<and>
   length (lamda_out (snd (snd (write_results st)))) = length (lamda_out (snd st))"
proof -
  obtain s f where st: "st = (s, f)" by (cases st)
  show ?thesis
    using assign_length [of "grad_out f" "quad_buffer_out s"]
          assign_length [of "lamda_out f" "state_bufferB s"]
    by (auto simp: st write_results_def split: prod.splits option.splits)
qed

lemma solve_backward_lengths:
  "length (grad_out (snd (snd (solve_backward B s t_init t_end tvals grads g_out l_out la qa mr)))) = length g_out \<and>
   length (lamda_out (snd (snd (solve_backward B s t_init t_end tvals grads g_out l_out la qa mr)))) = length l_out"
proof -
  let ?f = "\<lparr>time_p = t_init, grad_out = g_out, lamda_out = l_out,
             lamda_all_out = la, quad_all_out = qa\<rparr>"
  let ?l = "backward_loop B (nat mr) 0 (intervals_with_grads t_init t_end tvals grads)
              (zero_buffers s, ?f)"
  have 1: "grad_out (snd (snd ?l)) = g_out \<and> lamda_out (snd (snd ?l)) = l_out"
    using backward_loop_outs [of B "nat mr" 0 _ "(zero_buffers s, ?f)"] by simp
  show ?thesis
    using 1 write_results_lengths [of "snd ?l"]
    by (auto simp: solve_backward_def and_then_snd split: option.splits)
qed

lemma backward_finish_caught:
  "is_SolverError e \<Longrightarrow>
   backward_finish (Some e) op
     = (None, (op\<lparr>op_lamda_out := replicate (length (op_lamda_out op)) NaN,
                   op_grad_out := replicate (length (op_grad_out op)) NaN\<rparr>,
               Some (replicate (length (op_lamda_out op)) NaN,
                     replicate (length (op_grad_out op)) NaN)))"
  by (simp add: backward_finish_def fill_replicate Let_def)

text \<open>
  Claim C2. The parameters were set without an exception. If \<^verbatim>\<open>solve_forward\<close> raises
  a \<^verbatim>\<open>SolverError\<close>, \<^verbatim>\<open>SolveODEAdjoint.perform\<close> returns, and its output is an array of
  the shape of \<^verbatim>\<open>self._y_out\<close> with not-a-number in every entry; so does
  \<^verbatim>\<open>SolveODEAdjointBackward.perform\<close>, with both outputs of the shapes of
  \<^verbatim>\<open>self._lamda_out\<close> and \<^verbatim>\<open>self._grad_out\<close> and not-a-number in every entry. The same
  holds for the backward operation when \<^verbatim>\<open>solve_forward\<close> returns and \<^verbatim>\<open>solve_backward\<close>
  raises a \<^verbatim>\<open>SolverError\<close>.
\<close>

theorem adjoint_failures_give_nan:
  "(and_then (set_derivative_params B params (op_solver op)) (set_remaining_params B params_fixed)
       = (None, s) \<and>
    solve_forward B s (op_t0 op) (op_tvals op) y_init (op_y_out op)
       = Some (Some (SolverError m), (s', Y)) \<longrightarrow>
      (\<exists>op'. SolveODEAdjoint_perform B op (y_init, params, params_fixed)
                = Some (None, (op', Some (map (\<lambda>row. replicate (length row) NaN) (op_y_out op))))) \<and>
      (\<exists>op'. SolveODEAdjointBackward_perform B op (y_init, params, params_fixed, grads)
                = Some (None, (op', Some (replicate (length (op_lamda_out op)) NaN,
                                          replicate (length (op_grad_out op)) NaN))))) \<and>
   (and_then (set_derivative_params B params (op_solver op)) (set_remaining_params B params_fixed)
       = (None, s) \<and>
    solve_forward B s (op_t0 op) (op_tvals op) y_init (op_y_out op) = Some (None, (s', Y)) \<and>
    op_tvals op \<noteq> [] \<and>
    fst (solve_backward B s' (last (op_tvals op)) (op_t0 op) (op_tvals op) grads
           (op_grad_out op) (op_lamda_out op) None None 50) = Some (SolverError m) \<longrightarrow>
      (\<exists>op'. SolveODEAdjointBackward_perform B op (y_init, params, params_fixed, grads)
                = Some (None, (op', Some (replicate (length (op_lamda_out op)) NaN,
                                          replicate (length (op_grad_out op)) NaN)))))"
proof (intro conjI impI)
  assume a: "and_then (set_derivative_params B params (op_solver op)) (set_remaining_params B params_fixed)
       = (None, s) \<and>
    solve_forward B s (op_t0 op) (op_tvals op) y_init (op_y_out op)
       = Some (Some (SolverError m), (s', Y))"
  from a solve_forward_shape [of B s "op_t0 op" "op_tvals op" y_init "op_y_out op"]
  have sh: "map length Y = map length (op_y_out op)" by simp
  have "map (\<lambda>row. fill row NaN) Y = map (\<lambda>row. replicate (length row) NaN) (op_y_out op)"
    using sh by (simp add: fill_replicate list_eq_iff_nth_eq)
  with a show "\<exists>op'. SolveODEAdjoint_perform B op (y_init, params, params_fixed)
                = Some (None, (op', Some (map (\<lambda>row. replicate (length row) NaN) (op_y_out op))))"
    by (simp add: SolveODEAdjoint_perform_def Let_def)
  from a show "\<exists>op'. SolveODEAdjointBackward_perform B op (y_init, params, params_fixed, grads)
                = Some (None, (op', Some (replicate (length (op_lamda_out op)) NaN,
                                          replicate (length (op_grad_out op)) NaN)))"
    by (simp add: SolveODEAdjointBackward_perform_def backward_finish_caught)
next
  assume a: "and_then (set_derivative_params B params (op_solver op)) (set_remaining_params B params_fixed)
       = (None, s) \<and>
    solve_forward B s (op_t0 op) (op_tvals op) y_init (op_y_out op) = Some (None, (s', Y)) \<and>
    op_tvals op \<noteq> [] \<and>
    fst (solve_backward B s' (last (op_tvals op)) (op_t0 op) (op_tvals op) grads
           (op_grad_out op) (op_lamda_out op) None None 50) = Some (SolverError m)"
  let ?r = "solve_backward B s' (last (op_tvals op)) (op_t0 op) (op_tvals op) grads
           (op_grad_out op) (op_lamda_out op) None None 50"
  from a show "\<exists>op'. SolveODEAdjointBackward_perform B op (y_init, params, params_fixed, grads)
                = Some (None, (op', Some (replicate (length (op_lamda_out op)) NaN,
                                          replicate (length (op_grad_out op)) NaN)))"
    using solve_backward_lengths [of B s' "last (op_tvals op)" "op_t0 op" "op_tvals op" grads
            "op_grad_out op" "op_lamda_out op" None None 50]
    by (cases ?r) (auto simp: SolveODEAdjointBackward_perform_def backward_finish_caught)
qed


text \<open>The definitions an example of the adjoint forward pass unfolds.\<close>

lemmas forward_defs =
  solve_forward_def solve_forward_begin_def load_state_def solve_forward_body_def
  stepF_loop.simps adjoint_op_init_def make_output_buffers_def
  set_derivative_params_def set_remaining_params_def

text \<open>
  Claim C2, on the example engine: a forward step that fails with \<^verbatim>\<open>CV_CONV_FAILURE\<close>,
  for both operations, and a forward step that succeeds followed by a backward step
  that fails.
\<close>

theorem adjoint_failures_give_nan_witness:
  "(\<exists>op'. SolveODEAdjoint_perform scripted_engine
             (adjoint_op_init (demo_adjoint [- 4]) (Num 0) [Num 0, Num 1]) ([Num 5], [Num 1], [Num 2])
           = Some (None, (op', Some [[NaN], [NaN]]))) \<and>
   (\<exists>op'. SolveODEAdjointBackward_perform scripted_engine
             (adjoint_op_init (demo_adjoint [- 4]) (Num 0) [Num 0, Num 1])
             ([Num 5], [Num 1], [Num 2], [[Num 1], [Num 2]])
           = Some (None, (op', Some ([NaN], [NaN])))) \<and>
   (\<exists>op'. SolveODEAdjointBackward_perform scripted_engine
             (adjoint_op_init (demo_adjoint [0, - 4]) (Num 0) [Num 0, Num 1])
             ([Num 5], [Num 1], [Num 2], [[Num 1], [Num 2]])
           = Some (None, (op', Some ([NaN], [NaN]))))"
proof -
  let ?B = scripted_engine
  let ?op = "adjoint_op_init (demo_adjoint [- 4]) (Num 0) [Num 0, Num 1]"
  let ?op2 = "adjoint_op_init (demo_adjoint [0, - 4]) (Num 0) [Num 0, Num 1]"
  have p: "and_then (set_derivative_params ?B [Num 1] (op_solver ?op)) (set_remaining_params ?B [Num 2])
             = (None, demo_adjoint [- 4])"
    by (simp add: backward_defs example_defs forward_defs)
  have "\<exists>m s' Y. solve_forward ?B (demo_adjoint [- 4]) (op_t0 ?op) (op_tvals ?op) [Num 5] (op_y_out ?op)
             = Some (Some (SolverError m), (s', Y))"
    by (simp add: backward_defs example_defs forward_defs)
  then obtain m s' Y where
    f: "solve_forward ?B (demo_adjoint [- 4]) (op_t0 ?op) (op_tvals ?op) [Num 5] (op_y_out ?op)
             = Some (Some (SolverError m), (s', Y))" by blast
  have p2: "and_then (set_derivative_params ?B [Num 1] (op_solver ?op2)) (set_remaining_params ?B [Num 2])
             = (None, demo_adjoint [0, - 4])"
    by (simp add: backward_defs example_defs forward_defs)
  have "\<exists>s' Y. solve_forward ?B (demo_adjoint [0, - 4]) (op_t0 ?op2) (op_tvals ?op2) [Num 5] (op_y_out ?op2)
             = Some (None, (s', Y)) \<and> ode s' = ([- 4], Num 1) \<and> state_bufferB s' = [Num 7]
               \<and> quad_buffer s' = [Num 7] \<and> quad_buffer_out s' = [Num 7]"
    by (simp add: backward_defs example_defs forward_defs)
  then obtain s2 Y2 where
    f2: "solve_forward ?B (demo_adjoint [0, - 4]) (op_t0 ?op2) (op_tvals ?op2) [Num 5] (op_y_out ?op2)
             = Some (None, (s2, Y2))" and e2: "ode s2 = ([- 4], Num 1)"
      "state_bufferB s2 = [Num 7]" "quad_buffer s2 = [Num 7]" "quad_buffer_out s2 = [Num 7]" by blast
  have t: "op_tvals ?op2 \<noteq> []" by (simp add: adjoint_op_init_def make_output_buffers_def)
  have b2: "\<exists>m. fst (solve_backward ?B s2 (last (op_tvals ?op2)) (op_t0 ?op2) (op_tvals ?op2)
                   [[Num 1], [Num 2]] (op_grad_out ?op2) (op_lamda_out ?op2) None None 50)
             = Some (SolverError m)"
    by (simp add: backward_defs example_defs forward_defs e2 eval_nat_numeral)
  then obtain m2 where
    b: "fst (solve_backward ?B s2 (last (op_tvals ?op2)) (op_t0 ?op2) (op_tvals ?op2)
                   [[Num 1], [Num 2]] (op_grad_out ?op2) (op_lamda_out ?op2) None None 50)
             = Some (SolverError m2)" by blast
  have sh: "op_y_out ?op = [[Num 0], [Num 0]]" "op_lamda_out ?op = [Num 0]" "op_grad_out ?op = [Num 0]"
    "op_lamda_out ?op2 = [Num 0]" "op_grad_out ?op2 = [Num 0]"
    by (simp_all add: forward_defs demo_adjoint_def)
  from adjoint_failures_give_nan
         [where B = ?B and op = ?op and params = "[Num 1]" and params_fixed = "[Num 2]"
            and s = "demo_adjoint [- 4]" and y_init = "[Num 5]" and m = m and s' = s' and Y = Y
            and grads = "[[Num 1], [Num 2]]"]
       p f
  have 1: "(\<exists>op'. SolveODEAdjoint_perform ?B ?op ([Num 5], [Num 1], [Num 2])
                = Some (None, (op', Some (map (\<lambda>row. replicate (length row) NaN) (op_y_out ?op))))) \<and>
      (\<exists>op'. SolveODEAdjointBackward_perform ?B ?op ([Num 5], [Num 1], [Num 2], [[Num 1], [Num 2]])
                = Some (None, (op', Some (replicate (length (op_lamda_out ?op)) NaN,
                                          replicate (length (op_grad_out ?op)) NaN))))"
    by blast
  from adjoint_failures_give_nan
         [where B = ?B and op = ?op2 and params = "[Num 1]" and params_fixed = "[Num 2]"
            and s = "demo_adjoint [0, - 4]" and y_init = "[Num 5]" and m = m2 and s' = s2 and Y = Y2
            and grads = "[[Num 1], [Num 2]]"]
       p2 f2 t b
  have 2: "\<exists>op'. SolveODEAdjointBackward_perform ?B ?op2 ([Num 5], [Num 1], [Num 2], [[Num 1], [Num 2]])
                = Some (None, (op', Some (replicate (length (op_lamda_out ?op2)) NaN,
                                          replicate (length (op_grad_out ?op2)) NaN)))"
    by blast
  from 1 2 show ?thesis unfolding sh by simp
qed


lemma solve_backward_returns:
  assumes "solve_backward B s t_init t_end tvals grads g_out l_out la qa mr = (None, (s', f))"
  shows "assign l_out (state_bufferB s') = (None, lamda_out f)"
proof -
  let ?f = "\<lparr>time_p = t_init, grad_out = g_out, lamda_out = l_out,
             lamda_all_out = la, quad_all_out = qa\<rparr>"
  let ?l = "backward_loop B (nat mr) 0 (intervals_with_grads t_init t_end tvals grads)
              (zero_buffers s, ?f)"
  obtain x sl fl where l: "?l = (x, (sl, fl))" by (metis prod.collapse)
  have o: "lamda_out fl = l_out"
    using backward_loop_outs [of B "nat mr" 0 "intervals_with_grads t_init t_end tvals grads"
            "(zero_buffers s, ?f)"]
    by (simp add: l)
  from assms l have x: "x = None" and w: "write_results (sl, fl) = (None, (s', f))"
    by (auto simp: solve_backward_def and_then_def split: option.splits)
  from w o show ?thesis
    by (auto simp: write_results_def split: prod.splits option.splits)
qed

text \<open>
  Claim C5. When the parameter updates, the forward pass and the backward pass of the
  backward operation that \<^verbatim>\<open>SolveODEAdjoint.grad\<close> builds all complete, and the adjoint
  state has the length \<^verbatim>\<open>n_states\<close> of the output buffer, then \<^verbatim>\<open>lamda_out\<close> is the
  adjoint state the backward pass ended with, un-negated, and the first gradient that
  \<^verbatim>\<open>grad\<close> returns is its negation, entry by entry; the second is \<^verbatim>\<open>grad_out\<close>.
\<close>

theorem gradient_is_negated_adjoint:
  assumes params: "and_then (set_derivative_params B params (op_solver op))
                     (set_remaining_params B params_fixed) = (None, s)"
    and forward: "solve_forward B s (op_t0 op) (op_tvals op) y_init
                    (fst (make_output_buffers (op_solver op) (op_tvals op))) = Some (None, (s', Y))"
    and times: "op_tvals op \<noteq> []"
    and backward: "solve_backward B s' (last (op_tvals op)) (op_t0 op) (op_tvals op) g
                     (fst (snd (make_output_buffers (op_solver op) (op_tvals op))))
                     (snd (snd (make_output_buffers (op_solver op) (op_tvals op))))
                     None None 50 = (None, (s'', f))"
    and shape: "length (state_bufferB s'') = n_states (op_solver op)"
  shows "\<exists>bw. SolveODEAdjoint_grad B op (y_init, params, params_fixed) g
                = Some (None, (bw, [Gradient (map fneg (state_bufferB s'')),
                                    Gradient (grad_out f), NotImplemented])) \<and>
              op_solver bw = s'' \<and> op_lamda_out bw = state_bufferB s'' \<and>
              lamda_out f = state_bufferB s''"
proof -
  have "assign (snd (snd (make_output_buffers (op_solver op) (op_tvals op)))) (state_bufferB s'')
          = (None, lamda_out f)"
    by (rule solve_backward_returns [OF backward])
  with shape have l: "lamda_out f = state_bufferB s''"
    by (simp add: assign_def broadcast_to_def make_output_buffers_def)
  show ?thesis
    using params forward times backward l
    by (simp add: SolveODEAdjoint_grad_def SolveODEAdjointBackward_perform_def adjoint_op_init_def
          backward_finish_def Let_def make_output_buffers_def)
qed

text \<open>
  Claim C5, on the example engine: gradients 1 and 2 at the times 0 and 1 leave the
  adjoint state at -3, and the gradient returned for the initial state is 3.
\<close>

theorem gradient_is_negated_adjoint_witness:
  "\<exists>bw. SolveODEAdjoint_grad scripted_engine
           (adjoint_op_init (demo_adjoint []) (Num 0) [Num 0, Num 1]) ([Num 5], [Num 1], [Num 2])
           [[Num 1], [Num 2]]
         = Some (None, (bw, [Gradient [Num 3], Gradient [Num 0], NotImplemented])) \<and>
        state_bufferB (op_solver bw) = [Num (- 3)] \<and> op_lamda_out bw = [Num (- 3)]"
proof -
  let ?B = scripted_engine
  let ?op = "adjoint_op_init (demo_adjoint []) (Num 0) [Num 0, Num 1]"
  have p: "and_then (set_derivative_params ?B [Num 1] (op_solver ?op)) (set_remaining_params ?B [Num 2])
             = (None, demo_adjoint [])"
    by (simp add: backward_defs example_defs forward_defs)
  have "\<exists>s' Y. solve_forward ?B (demo_adjoint []) (op_t0 ?op) (op_tvals ?op) [Num 5]
                  (fst (make_output_buffers (op_solver ?op) (op_tvals ?op)))
             = Some (None, (s', Y)) \<and> ode s' = ([], Num 1) \<and> state_bufferB s' = [Num 7]
               \<and> quad_buffer s' = [Num 7] \<and> quad_buffer_out s' = [Num 7] \<and> odeB s' = 0"
    by (simp add: backward_defs example_defs forward_defs)
  then obtain s' Y where
    f: "solve_forward ?B (demo_adjoint []) (op_t0 ?op) (op_tvals ?op) [Num 5]
          (fst (make_output_buffers (op_solver ?op) (op_tvals ?op))) = Some (None, (s', Y))"
    and e: "ode s' = ([], Num 1)" "state_bufferB s' = [Num 7]" "quad_buffer s' = [Num 7]"
      "quad_buffer_out s' = [Num 7]" "odeB s' = 0" by blast
  have t: "op_tvals ?op \<noteq> []" by (simp add: adjoint_op_init_def make_output_buffers_def)
  let ?r = "solve_backward ?B s' (last (op_tvals ?op)) (op_t0 ?op) (op_tvals ?op) [[Num 1], [Num 2]]
              (fst (snd (make_output_buffers (op_solver ?op) (op_tvals ?op))))
              (snd (snd (make_output_buffers (op_solver ?op) (op_tvals ?op)))) None None 50"
  have r: "fst ?r = None \<and> state_bufferB (fst (snd ?r)) = [Num (- 3)] \<and>
           grad_out (snd (snd ?r)) = [Num 0]"
    by (simp add: backward_defs example_defs forward_defs e eval_nat_numeral)
  then have b: "?r = (None, (fst (snd ?r), snd (snd ?r)))" by (metis prod.collapse)
  have n: "length (state_bufferB (fst (snd ?r))) = n_states (op_solver ?op)"
    using r by (simp add: adjoint_op_init_def make_output_buffers_def demo_adjoint_def)
  from gradient_is_negated_adjoint [OF p f t b n] r
  show ?thesis by auto
qed

section \<open>Output times equal to the initial time\<close>

text \<open>The definitions an example of \<^verbatim>\<open>Solver.solve\<close> unfolds.\<close>

lemmas solve_defs =
  solve_def solve_begin_def load_sens0_def load_state_def solve_body_def solve_at_t0_def
  solve_read_out_def step_loop.simps

text \<open>
  Claim C4 at \<^verbatim>\<open>t0 = 1\<close>, \<^verbatim>\<open>tvals = [0, 1]\<close>, \<^verbatim>\<open>y0 = [5]\<close> and a \<^verbatim>\<open>y_out\<close> holding 9
  in both rows, for \<^verbatim>\<open>Solver.solve\<close> and for \<^verbatim>\<open>AdjointSolver.solve_forward\<close>. The one
  step goes to the time 0; at the time 1, which equals \<^verbatim>\<open>t0\<close> and has the index 1,
  \<^verbatim>\<open>y_out[0, :] = y0\<close> overwrites the row of the time 0, and row 1 keeps the 9 it had.
\<close>

theorem t0_at_later_index_writes_row_zero:
  "(\<exists>s'. solve scripted_engine (demo_solver [] False) (Num 1) [Num 0, Num 1] [Num 5]
            [[Num 9], [Num 9]] None None
          = Some (None, (s', [[Num 5], [Num 9]], None)) \<and>
         calls s' = [ReInit (Num 1) [Num 5], Step (Num 0)]) \<and>
   (\<exists>s'. solve_forward scripted_engine (demo_adjoint []) (Num 1) [Num 0, Num 1] [Num 5]
            [[Num 9], [Num 9]]
          = Some (None, (s', [[Num 5], [Num 9]])) \<and>
         calls s' = [ReInit (Num 1) [Num 5], AdjReInit, StepF (Num 0)])"
  by (simp add: solve_defs forward_defs backward_defs example_defs)

text \<open>
  What does hold in that branch, for every input: the solver is left as it is, so no
  step is taken, and the row written is row 0 whatever the index \<open>i\<close> of the time.
\<close>

lemma t0_branch_takes_no_step:
  assumes "feq t t0"
  shows "solve_forward_body B t0 y0 i t (s, Y)
           = Some (fst (set_row Y 0 y0), (s, snd (set_row Y 0 y0)))"
    and "\<not> compute_sens s' \<Longrightarrow>
         solve_body B t0 y0 sens0 i t (s', Y, T)
           = Some (fst (set_row Y 0 y0), (s', snd (set_row Y 0 y0), T))"
  using assms
  by (simp_all add: solve_forward_body_def solve_body_def solve_at_t0_def
        split: prod.splits option.splits)

section \<open>The forward solve with sensitivities\<close>

































end
